theory Spec2Isabelle
  imports Complex_Main
begin

section \<open>Python values and library functions used by the engine\<close>

text \<open>
  Strings are lists of ASCII characters. Python floats and \<open>Decimal\<close> values are
  modelled by exact rationals: rounding of binary floating point and the 28 digit context
  precision of \<open>Decimal\<close> arithmetic are not part of the model. The regular expression
  class \<open>\d\<close> and \<open>str.isdigit\<close> are read on ASCII digits only.
\<close>

datatype py_error = ValueError | KeyError | IndexError | OverflowError | InvalidOperation

definition is_digit :: "char \<Rightarrow> bool" where
  "is_digit c = (48 \<le> (of_char c :: nat) \<and> (of_char c :: nat) \<le> 57)"

definition digit_val :: "char \<Rightarrow> nat" where
  "digit_val c = of_char c - 48"

definition nat_of_digits :: "string \<Rightarrow> nat" where
  "nat_of_digits ds = foldl (\<lambda>n c. 10 * n + digit_val c) 0 ds"

text \<open>The characters \<open>str.strip()\<close> removes (the ASCII ones for which \<open>isspace\<close> holds).\<close>

definition is_space :: "char \<Rightarrow> bool" where
  "is_space c = ((of_char c :: nat) \<in> {9, 10, 11, 12, 13, 28, 29, 30, 31, 32})"

definition py_strip :: "string \<Rightarrow> string" where
  "py_strip s = rev (dropWhile is_space (rev (dropWhile is_space s)))"

definition lower_char :: "char \<Rightarrow> char" where
  "lower_char c =
     (case map_of (zip ''ABCDEFGHIJKLMNOPQRSTUVWXYZ'' ''abcdefghijklmnopqrstuvwxyz'') c of
        Some l \<Rightarrow> l
      | None \<Rightarrow> c)"

definition py_lower :: "string \<Rightarrow> string" where
  "py_lower s = map lower_char s"

text \<open>\<open>s.replace(a, b)\<close> and \<open>s.replace(a, '')\<close> for a single character \<open>a\<close>.\<close>

definition replace_char :: "char \<Rightarrow> char \<Rightarrow> string \<Rightarrow> string" where
  "replace_char a b s = map (\<lambda>c. if c = a then b else c) s"

definition remove_char :: "char \<Rightarrow> string \<Rightarrow> string" where
  "remove_char a s = filter (\<lambda>c. c \<noteq> a) s"

text \<open>\<open>s.rfind(a)\<close>: the index of the last occurrence, \<open>-1\<close> when there is none.\<close>

fun rfind_from :: "char \<Rightarrow> string \<Rightarrow> int \<Rightarrow> int \<Rightarrow> int" where
  "rfind_from a [] i found = found"
| "rfind_from a (c # cs) i found = rfind_from a cs (i + 1) (if c = a then i else found)"

definition rfind :: "char \<Rightarrow> string \<Rightarrow> int" where
  "rfind a s = rfind_from a s 0 (- 1)"

text \<open>\<open>s.split(sep)\<close> for a single character separator: always at least one part.\<close>

fun split_on :: "char \<Rightarrow> string \<Rightarrow> string list" where
  "split_on sep [] = [[]]"
| "split_on sep (c # cs) =
     (if c = sep then [] # split_on sep cs
      else (case split_on sep cs of
              p # ps \<Rightarrow> (c # p) # ps
            | [] \<Rightarrow> [[c]]))"

text \<open>\<open>needle in haystack\<close> on strings.\<close>

fun starts_with :: "string \<Rightarrow> string \<Rightarrow> bool" where
  "starts_with [] s = True"
| "starts_with (p # ps) [] = False"
| "starts_with (p # ps) (c # cs) = (p = c \<and> starts_with ps cs)"

fun py_in :: "string \<Rightarrow> string \<Rightarrow> bool" where
  "py_in needle [] = (needle = [])"
| "py_in needle (c # cs) = (starts_with needle (c # cs) \<or> py_in needle cs)"

text \<open>
  \<open>float(s)\<close> on the strings the price normalizers pass to it, which hold digits, periods
  and commas only: a digit string with at most one period and at least one digit is a
  number, everything else raises \<open>ValueError\<close>.
\<close>

definition py_float :: "string \<Rightarrow> py_error + rat" where
  "py_float s =
     (case split_on (CHR ''.'') s of
        [ip] \<Rightarrow>
          if ip \<noteq> [] \<and> list_all is_digit ip then Inr (of_nat (nat_of_digits ip))
          else Inl ValueError
      | [ip, fp] \<Rightarrow>
          if list_all is_digit ip \<and> list_all is_digit fp \<and> (ip \<noteq> [] \<or> fp \<noteq> [])
          then Inr (of_nat (nat_of_digits ip) + of_nat (nat_of_digits fp) / 10 ^ length fp)
          else Inl ValueError
      | _ \<Rightarrow> Inl ValueError)"

text \<open>
  \<open>int(s)\<close> on a string: surrounding whitespace, an optional sign, digits with single
  underscores between them.
\<close>

fun int_literal :: "string \<Rightarrow> bool" where
  "int_literal [] = False"
| "int_literal [c] = is_digit c"
| "int_literal (c # d # r) =
     (is_digit c \<and> (if d = CHR ''_'' then int_literal r else int_literal (d # r)))"

definition py_int :: "string \<Rightarrow> py_error + int" where
  "py_int s =
     (case py_strip s of
        [] \<Rightarrow> Inl ValueError
      | c # r \<Rightarrow>
          if c = CHR ''-'' then
            (if int_literal r then Inr (- int (nat_of_digits (remove_char (CHR ''_'') r)))
             else Inl ValueError)
          else if c = CHR ''+'' then
            (if int_literal r then Inr (int (nat_of_digits (remove_char (CHR ''_'') r)))
             else Inl ValueError)
          else
            (if int_literal (c # r)
             then Inr (int (nat_of_digits (remove_char (CHR ''_'') (c # r))))
             else Inl ValueError))"

text \<open>
  \<open>Decimal(s)\<close>: whitespace is stripped and underscores are removed; then an optional
  sign, followed by a number (digits with an optional fraction, at least one digit, and an
  optional exponent), an infinity or a NaN, all case-insensitive. Anything else raises
  \<open>InvalidOperation\<close>.
\<close>

datatype decimal = Num rat | Infinity bool | NaN

definition dec_neg :: "decimal \<Rightarrow> decimal" where
  "dec_neg d = (case d of Num r \<Rightarrow> Num (- r) | Infinity neg \<Rightarrow> Infinity (\<not> neg) | NaN \<Rightarrow> NaN)"

definition decimal_mantissa :: "string \<Rightarrow> (nat \<times> nat) option" where
  "decimal_mantissa m =
     (case split_on (CHR ''.'') m of
        [ip] \<Rightarrow> if ip \<noteq> [] \<and> list_all is_digit ip then Some (nat_of_digits ip, 0) else None
      | [ip, fp] \<Rightarrow>
          if list_all is_digit ip \<and> list_all is_digit fp \<and> (ip \<noteq> [] \<or> fp \<noteq> [])
          then Some (nat_of_digits (ip @ fp), length fp) else None
      | _ \<Rightarrow> None)"

definition decimal_exponent :: "string \<Rightarrow> int option" where
  "decimal_exponent e =
     (case e of
        [] \<Rightarrow> None
      | c # r \<Rightarrow>
          if c = CHR ''-'' then
            (if r \<noteq> [] \<and> list_all is_digit r then Some (- int (nat_of_digits r)) else None)
          else if c = CHR ''+'' then
            (if r \<noteq> [] \<and> list_all is_digit r then Some (int (nat_of_digits r)) else None)
          else (if list_all is_digit (c # r) then Some (int (nat_of_digits (c # r))) else None))"

definition scale10 :: "rat \<Rightarrow> int \<Rightarrow> rat" where
  "scale10 v e = (if 0 \<le> e then v * 10 ^ nat e else v / 10 ^ nat (- e))"

definition decimal_unsigned :: "string \<Rightarrow> py_error + decimal" where
  "decimal_unsigned body =
     (if body = ''inf'' \<or> body = ''infinity'' then Inr (Infinity False)
      else if (starts_with ''nan'' body \<and> list_all is_digit (drop 3 body))
            \<or> (starts_with ''snan'' body \<and> list_all is_digit (drop 4 body)) then Inr NaN
      else
        (case split_on (CHR ''e'') body of
           [m] \<Rightarrow>
             (case decimal_mantissa m of
                Some (n, k) \<Rightarrow> Inr (Num (scale10 (of_nat n) (- int k)))
              | None \<Rightarrow> Inl InvalidOperation)
         | [m, e] \<Rightarrow>
             (case (decimal_mantissa m, decimal_exponent e) of
                (Some (n, k), Some x) \<Rightarrow> Inr (Num (scale10 (of_nat n) (x - int k)))
              | _ \<Rightarrow> Inl InvalidOperation)
         | _ \<Rightarrow> Inl InvalidOperation))"

definition py_decimal :: "string \<Rightarrow> py_error + decimal" where
  "py_decimal s =
     (case py_lower (remove_char (CHR ''_'') (py_strip s)) of
        [] \<Rightarrow> Inl InvalidOperation
      | c # r \<Rightarrow>
          if c = CHR ''-'' then
            (case decimal_unsigned r of Inr d \<Rightarrow> Inr (dec_neg d) | Inl e \<Rightarrow> Inl e)
          else if c = CHR ''+'' then decimal_unsigned r
          else decimal_unsigned (c # r))"

section \<open>Numeric normalizers\<close>

text \<open>\<open>re.sub(r'[^\d\.,]', '', s)\<close>: keep digits, periods and commas.\<close>

definition keep_numeric :: "string \<Rightarrow> string" where
  "keep_numeric s = filter (\<lambda>c. is_digit c \<or> c = CHR ''.'' \<or> c = CHR '','') s"

text \<open>
  The last two lines of both \<open>_extract_numeric_price\<close> functions:
  \<open>float(cleaned) if cleaned else 0.0\<close>, with \<open>ValueError\<close> caught and turned into \<open>0.0\<close>.
\<close>

definition float_or_zero :: "string \<Rightarrow> rat" where
  "float_or_zero cleaned =
     (if cleaned = [] then 0
      else (case py_float cleaned of Inr v \<Rightarrow> v | Inl e \<Rightarrow> 0))"

text \<open>\<open>PriorityAPIClient._extract_numeric_price\<close> (priority_api.py).\<close>

definition PriorityAPIClient_extract_numeric_price :: "string \<Rightarrow> rat" where
  "PriorityAPIClient_extract_numeric_price price_str =
     (if price_str = [] then 0
      else
        let cleaned = keep_numeric price_str in
        if cleaned = [] then 0
        else if CHR '','' \<in> set cleaned \<and> CHR ''.'' \<in> set cleaned then
          (let last_comma = rfind (CHR '','') cleaned;
               last_period = rfind (CHR ''.'') cleaned
           in if last_comma > last_period
              then float_or_zero (replace_char (CHR '','') (CHR ''.'') (remove_char (CHR ''.'') cleaned))
              else float_or_zero (remove_char (CHR '','') cleaned))
        else if CHR '','' \<in> set cleaned \<and> CHR ''.'' \<notin> set cleaned then
          float_or_zero (replace_char (CHR '','') (CHR ''.'') cleaned)
        else if CHR ''.'' \<in> set cleaned \<and> CHR '','' \<notin> set cleaned then
          (let parts = split_on (CHR ''.'') cleaned
           in if length parts = 2 \<and> length (parts ! 1) \<le> 2
              then float_or_zero cleaned
              else float_or_zero (remove_char (CHR ''.'') cleaned))
        else float_or_zero cleaned)"

text \<open>\<open>ResponseHandler._extract_numeric_price\<close> (response_handler.py).\<close>

definition ResponseHandler_extract_numeric_price :: "string \<Rightarrow> rat" where
  "ResponseHandler_extract_numeric_price price_str =
     (if price_str = [] then 0
      else
        let cleaned = keep_numeric price_str in
        if cleaned = [] then 0
        else if CHR '','' \<in> set cleaned \<and> CHR ''.'' \<in> set cleaned then
          (let last_comma = rfind (CHR '','') cleaned;
               last_period = rfind (CHR ''.'') cleaned
           in if last_comma > last_period
              then float_or_zero (replace_char (CHR '','') (CHR ''.'') (remove_char (CHR ''.'') cleaned))
              else float_or_zero (remove_char (CHR '','') cleaned))
        else if CHR '','' \<in> set cleaned \<and> CHR ''.'' \<notin> set cleaned then
          (let parts = split_on (CHR '','') cleaned
           in if length parts = 2 \<and> length (parts ! 1) \<le> 2
              then float_or_zero (replace_char (CHR '','') (CHR ''.'') cleaned)
              else if length parts = 2 \<and> length (parts ! 1) = 3 then
                (if length (parts ! 0) \<le> 3
                 then float_or_zero (remove_char (CHR '','') cleaned)
                 else float_or_zero (replace_char (CHR '','') (CHR ''.'') cleaned))
              else float_or_zero (remove_char (CHR '','') cleaned))
        else if CHR ''.'' \<in> set cleaned \<and> CHR '','' \<notin> set cleaned then
          (let parts = split_on (CHR ''.'') cleaned
           in if length parts = 2 \<and> length (parts ! 1) \<le> 2
              then float_or_zero cleaned
              else float_or_zero (remove_char (CHR ''.'') cleaned))
        else float_or_zero cleaned)"

text \<open>
  \<open>OrderValidator.clean_number\<close> (order_validator.py) on a string argument:
  \<open>value.replace("USD", "").strip()\<close>, then the European comma step, then the trailing
  dash step, then \<open>Decimal(cleaned)\<close>. Every exception, \<open>InvalidOperation\<close>
  included, is caught and gives \<open>Decimal('0')\<close>.
\<close>

fun replace_USD :: "string \<Rightarrow> string" where
  "replace_USD [] = []"
| "replace_USD (c # cs) =
     (if starts_with ''USD'' (c # cs) then replace_USD (drop 2 cs) else c # replace_USD cs)"

definition european_comma :: "string \<Rightarrow> string" where
  "european_comma cleaned =
     (if CHR '','' \<in> set cleaned
      then replace_char (CHR '','') (CHR ''.'') (remove_char (CHR ''.'') cleaned)
      else cleaned)"

definition trailing_dash :: "string \<Rightarrow> string" where
  "trailing_dash cleaned =
     (if cleaned \<noteq> [] \<and> last cleaned = CHR ''-''
      then CHR ''-'' # butlast cleaned else cleaned)"

definition clean_number :: "string \<Rightarrow> decimal" where
  "clean_number v =
     (if v = [] then Num 0
      else
        (case py_decimal (trailing_dash (european_comma (py_strip (replace_USD v)))) of
           Inr d \<Rightarrow> d
         | Inl e \<Rightarrow> Num 0))"

text \<open>
  The strings the trailing dash convention is stated for: digits with periods and commas.
\<close>

definition numeric_body :: "string \<Rightarrow> bool" where
  "numeric_body s = list_all (\<lambda>c. is_digit c \<or> c = CHR ''.'' \<or> c = CHR '','') s"

text \<open>Strings that \<open>strip\<close>, \<open>lower\<close> and the removal of underscores leave as they are.\<close>

definition plainish :: "string \<Rightarrow> bool" where
  "plainish s = (\<forall>c\<in>set s. is_digit c \<or> c = CHR ''.'' \<or> c = CHR '','' \<or> c = CHR ''-'')"

section \<open>Price comparison thresholds\<close>

text \<open>
  \<open>validate_items_detail\<close> (priority_api.py, lines 678-679), and in the same words
  \<open>get_order_data\<close> for the order total and \<open>validate_shipping_charges\<close> for shipping:
  \<open>price_difference = abs(float(priority_vatprice) - ai_price_numeric)\<close>,
  \<open>price_match = price_difference < 0.01\<close>.
\<close>

definition approval_price_match :: "rat \<Rightarrow> rat \<Rightarrow> bool" where
  "approval_price_match priority_price ai_price_numeric =
     (\<bar>priority_price - ai_price_numeric\<bar> < 1 / 100)"


section \<open>The separator rule in the words of the specification\<close>

text \<open>
  A second definition, written from the words of section 4.1 of the specification and not
  from the source, to compare the normalizers against. On the string left after currency
  markers and whitespace are stripped: if both separators occur, the one in the rightmost
  position is the decimal separator and the other a thousands separator; if only one kind
  occurs, it is the decimal separator when it occurs exactly once and at most two
  characters follow it, and a thousands separator otherwise. A blank or non-numeric input
  yields zero.
\<close>

definition count_char :: "char \<Rightarrow> string \<Rightarrow> nat" where
  "count_char a s = length (filter (\<lambda>c. c = a) s)"

definition chars_after_last :: "char \<Rightarrow> string \<Rightarrow> nat" where
  "chars_after_last a s = length (takeWhile (\<lambda>c. c \<noteq> a) (rev s))"

definition chars_before_first :: "char \<Rightarrow> string \<Rightarrow> nat" where
  "chars_before_first a s = length (takeWhile (\<lambda>c. c \<noteq> a) s)"

definition as_decimal_separator :: "char \<Rightarrow> string \<Rightarrow> string" where
  "as_decimal_separator a s = map (\<lambda>c. if c = a then CHR ''.'' else c) s"

definition as_thousands_separator :: "char \<Rightarrow> string \<Rightarrow> string" where
  "as_thousands_separator a s = filter (\<lambda>c. c \<noteq> a) s"

definition spec_resolve_separators :: "string \<Rightarrow> string" where
  "spec_resolve_separators c =
     (if CHR '','' \<in> set c \<and> CHR ''.'' \<in> set c then
        (if chars_after_last (CHR '','') c < chars_after_last (CHR ''.'') c
         then as_decimal_separator (CHR '','') (as_thousands_separator (CHR ''.'') c)
         else as_decimal_separator (CHR ''.'') (as_thousands_separator (CHR '','') c))
      else if CHR '','' \<in> set c then
        (if count_char (CHR '','') c = 1 \<and> chars_after_last (CHR '','') c \<le> 2
         then as_decimal_separator (CHR '','') c
         else as_thousands_separator (CHR '','') c)
      else if CHR ''.'' \<in> set c then
        (if count_char (CHR ''.'') c = 1 \<and> chars_after_last (CHR ''.'') c \<le> 2
         then as_decimal_separator (CHR ''.'') c
         else as_thousands_separator (CHR ''.'') c)
      else c)"

definition spec_normalize_amount :: "string \<Rightarrow> rat" where
  "spec_normalize_amount raw = float_or_zero (spec_resolve_separators (keep_numeric raw))"

text \<open>
  The strings on which \<open>ResponseHandler._extract_numeric_price\<close> departs from the rule
  (lines 443-453): a single comma, followed by exactly three characters and preceded by more
  than three.
\<close>

definition long_prefix_three_digits :: "string \<Rightarrow> bool" where
  "long_prefix_three_digits c =
     (CHR '','' \<in> set c \<and> CHR ''.'' \<notin> set c \<and> count_char (CHR '','') c = 1
      \<and> chars_after_last (CHR '','') c = 3 \<and> chars_before_first (CHR '','') c > 3)"

section \<open>Order data\<close>

text \<open>
  Items are JSON objects. A key that may be absent is an optional field, and
  \<open>d.get(key, default)\<close> is \<open>get_or (key d) default\<close>. Only the keys the modelled functions
  read are kept: \<open>PARTNAME\<close>, \<open>TQUANT\<close> and \<open>VATPRICE\<close> of an authoritative (Priority)
  item, and the text fields of an extracted item.
\<close>

definition get_or :: "'a option \<Rightarrow> 'a \<Rightarrow> 'a" where
  "get_or v d = (case v of Some x \<Rightarrow> x | None \<Rightarrow> d)"

record priority_item =
  PARTNAME :: "string option"
  TQUANT :: "int option"
  VATPRICE :: "rat option"

record ai_item =
  product_code :: "string option"
  description :: "string option"
  item_description :: "string option"
  name :: "string option"
  partname :: "string option"
  quantity :: "string option"
  item_total :: "string option"
  price :: "string option"
  total_price :: "string option"

text \<open>
  A dict comprehension \<open>{key(x): x for x in xs}\<close>: a later item replaces an earlier one
  with the same key.
\<close>

definition py_dict :: "('a \<Rightarrow> 'k) \<Rightarrow> 'a list \<Rightarrow> ('k \<rightharpoonup> 'a)" where
  "py_dict key xs = map_of (rev (map (\<lambda>x. (key x, x)) xs))"

text \<open>
  \<open>PriorityAPIClient._extract_numeric_quantity\<close>: the first match of \<open>\d+\<close>, as an
  integer, and 0 when there is none.
\<close>

definition extract_numeric_quantity :: "string \<Rightarrow> int" where
  "extract_numeric_quantity quantity_str =
     (let numbers0 = takeWhile is_digit (dropWhile (\<lambda>c. \<not> is_digit c) quantity_str)
      in if numbers0 = [] then 0 else int (nat_of_digits numbers0))"

section \<open>Item matcher: \<open>validate_items_detail\<close>\<close>

text \<open>
  The entries of \<open>item_details\<close>. The key \<open>partname\<close> is \<open>ir_partname\<close> here and
  \<open>price_match\<close> is \<open>item_price_match\<close>, since the extracted item and the order level
  result have keys of the same names. The \<open>ai_...\<close> keys are \<open>None\<close> for an item
  missing in the extraction. The key \<open>price_difference\<close>, the absolute difference of
  the two prices, is left out.
\<close>

record item_result =
  ir_partname :: string
  priority_quantity :: int
  priority_price :: rat
  quantity_match :: bool
  item_price_match :: bool
  validation_passed :: bool
  ai_quantity_raw :: "string option"
  ai_quantity_numeric :: "int option"
  ai_price_raw :: "string option"
  ai_price_numeric :: "rat option"

text \<open>
  The result of \<open>validate_items_detail\<close>. The four lists of its nested \<open>mismatches\<close> dict
  are the fields \<open>mismatches_quantity\<close>, \<open>mismatches_price\<close>, \<open>missing_in_ai\<close> and
  \<open>missing_in_priority\<close>; an entry of the first two lists is the part name with the values
  compared.
\<close>

record validation_results =
  all_items_valid :: bool
  item_count_match :: bool
  priority_item_count :: nat
  ai_item_count :: nat
  item_details :: "item_result list"
  mismatches_quantity :: "(string \<times> int \<times> string \<times> int) list"
  mismatches_price :: "(string \<times> rat \<times> string \<times> rat \<times> rat) list"
  missing_in_ai :: "string list"
  missing_in_priority :: "string list"

definition priority_partname :: "priority_item \<Rightarrow> string" where
  "priority_partname item = get_or (PARTNAME item) []"

definition ai_product_code :: "ai_item \<Rightarrow> string" where
  "ai_product_code item = get_or (product_code item) []"

text \<open>The \<open>item_result\<close> of one authoritative item (lines 650-690 and 724-730).\<close>

definition item_detail :: "(string \<rightharpoonup> ai_item) \<Rightarrow> priority_item \<Rightarrow> item_result" where
  "item_detail ai_by_product_code priority_item =
     (let partname0 = priority_partname priority_item;
          priority_tquant = get_or (TQUANT priority_item) 0;
          priority_vatprice = get_or (VATPRICE priority_item) 0
      in case ai_by_product_code partname0 of
           Some ai_item \<Rightarrow>
             (let ai_quantity_str = get_or (quantity ai_item) [];
                  ai_item_total_str = get_or (item_total ai_item) [];
                  ai_quantity_numeric0 = extract_numeric_quantity ai_quantity_str;
                  ai_price_numeric0 = PriorityAPIClient_extract_numeric_price ai_item_total_str;
                  quantity_match0 = (ai_quantity_numeric0 = priority_tquant);
                  price_match0 = approval_price_match priority_vatprice ai_price_numeric0
              in \<lparr> ir_partname = partname0, priority_quantity = priority_tquant,
                   priority_price = priority_vatprice, quantity_match = quantity_match0,
                   item_price_match = price_match0,
                   validation_passed = (quantity_match0 \<and> price_match0),
                   ai_quantity_raw = Some ai_quantity_str,
                   ai_quantity_numeric = Some ai_quantity_numeric0,
                   ai_price_raw = Some ai_item_total_str,
                   ai_price_numeric = Some ai_price_numeric0 \<rparr>)
         | None \<Rightarrow>
             \<lparr> ir_partname = partname0, priority_quantity = priority_tquant,
               priority_price = priority_vatprice, quantity_match = False,
               item_price_match = False, validation_passed = False,
               ai_quantity_raw = None, ai_quantity_numeric = None,
               ai_price_raw = None, ai_price_numeric = None \<rparr>)"

text \<open>One round of the first loop (lines 649-739): an authoritative item against the extraction.\<close>

definition check_priority_item ::
  "(string \<rightharpoonup> ai_item) \<Rightarrow> validation_results \<Rightarrow> priority_item \<Rightarrow> validation_results" where
  "check_priority_item ai_by_product_code results priority_item =
     (let item_result0 = item_detail ai_by_product_code priority_item;
          partname0 = ir_partname item_result0
      in if ai_by_product_code partname0 \<noteq> None then
           (let r1 = (if \<not> quantity_match item_result0
                      then results\<lparr> mismatches_quantity := mismatches_quantity results @
                                      [(partname0, priority_quantity item_result0,
                                        get_or (ai_quantity_raw item_result0) [],
                                        get_or (ai_quantity_numeric item_result0) 0)],
                                    all_items_valid := False \<rparr>
                      else results);
                r2 = (if \<not> item_price_match item_result0
                      then r1\<lparr> mismatches_price := mismatches_price r1 @
                                 [(partname0, priority_price item_result0,
                                   get_or (ai_price_raw item_result0) [],
                                   get_or (ai_price_numeric item_result0) 0,
                                   \<bar>priority_price item_result0
                                      - get_or (ai_price_numeric item_result0) 0\<bar>)],
                               all_items_valid := False \<rparr>
                      else r1);
                r3 = (if \<not> validation_passed item_result0
                      then r2\<lparr> all_items_valid := False \<rparr> else r2)
            in r3\<lparr> item_details := item_details r3 @ [item_result0] \<rparr>)
         else
           results\<lparr> missing_in_ai := missing_in_ai results @ [partname0],
                    all_items_valid := False,
                    item_details := item_details results @ [item_result0] \<rparr>)"

text \<open>One round of the second loop (lines 742-749): an extracted item against Priority.\<close>

definition check_ai_item ::
  "(string \<rightharpoonup> priority_item) \<Rightarrow> validation_results \<Rightarrow> ai_item \<Rightarrow> validation_results" where
  "check_ai_item priority_by_partname results ai_item =
     (let product_code0 = ai_product_code ai_item
      in if priority_by_partname product_code0 = None
         then results\<lparr> missing_in_priority := missing_in_priority results @ [product_code0],
                       all_items_valid := False \<rparr>
         else results)"

definition validate_items_detail :: "priority_item list \<Rightarrow> ai_item list \<Rightarrow> validation_results" where
  "validate_items_detail priority_items ai_items =
     (let validation_results0 =
            \<lparr> all_items_valid = True,
              item_count_match = (length priority_items = length ai_items),
              priority_item_count = length priority_items,
              ai_item_count = length ai_items,
              item_details = [],
              mismatches_quantity = [], mismatches_price = [],
              missing_in_ai = [], missing_in_priority = [] \<rparr>;
          priority_by_partname = py_dict priority_partname priority_items;
          ai_by_product_code = py_dict ai_product_code ai_items;
          after_priority = foldl (check_priority_item ai_by_product_code) validation_results0
                             priority_items
      in foldl (check_ai_item priority_by_partname) after_priority ai_items)"

section \<open>Shipping reconciler: \<open>validate_shipping_charges\<close>\<close>

text \<open>
  The shipping information of the extraction: the dict \<open>_extract_ai_shipping_info\<close>
  returns, or the hint the caller passes as \<open>ai_shipping_info\<close>. A hint, when given, is a
  non-empty dict (an empty one is falsy and \<open>or\<close> treats it as \<open>None\<close>). Of its keys only
  \<open>price_numeric\<close> is read.
\<close>

record shipping_info =
  found_keyword :: "string option"
  raw_text :: "string option"
  price_raw :: "string option"
  price_numeric :: "rat option"

definition shipping_keywords :: "string list" where
  "shipping_keywords =
     [''shipping & handling'', ''expedited handling'', ''shipping'', ''handling'',
      ''freight'', ''delivery'']"

text \<open>
  The text of an item that is searched for a keyword (lines 903-910): the fields present,
  each after a space, lowered and stripped.
\<close>

definition shipping_item_text :: "ai_item \<Rightarrow> string" where
  "shipping_item_text item =
     py_strip (py_lower (concat (map (\<lambda>field. case field item of
                                              Some v \<Rightarrow> CHR '' '' # v
                                            | None \<Rightarrow> [])
               [product_code, description, item_description, name, partname])))"

text \<open>\<open>a or b\<close> on strings: the first operand when it is non-empty.\<close>

definition str_or :: "string \<Rightarrow> string \<Rightarrow> string" where
  "str_or a b = (if a \<noteq> [] then a else b)"

fun extract_ai_shipping_info :: "ai_item list \<Rightarrow> shipping_info option" where
  "extract_ai_shipping_info [] = None"
| "extract_ai_shipping_info (item # rest) =
     (let item_text = shipping_item_text item
      in case find (\<lambda>keyword. py_in keyword item_text) shipping_keywords of
           Some keyword \<Rightarrow>
             (let price_raw0 = str_or (get_or (item_total item) [])
                                 (str_or (get_or (price item) []) (get_or (total_price item) []))
              in Some \<lparr> found_keyword = Some keyword, raw_text = Some item_text,
                        price_raw = Some price_raw0,
                        price_numeric = Some (PriorityAPIClient_extract_numeric_price price_raw0) \<rparr>)
         | None \<Rightarrow> extract_ai_shipping_info rest)"

text \<open>
  The result of \<open>validate_shipping_charges\<close>; \<open>ai_shipping_info\<close> and \<open>price_difference\<close>
  are the fields \<open>ai_shipping_extracted\<close> and \<open>shipping_price_difference\<close>. The message
  text is left out.
\<close>

record shipping_validation =
  shipping_validation_passed :: bool
  validation_case :: string
  priority_shipping_items :: "(string \<times> rat) list"
  priority_shipping_total :: rat
  ai_shipping_extracted :: "shipping_info option"
  shipping_match :: bool
  shipping_price_difference :: rat

text \<open>The Priority items whose \<open>PARTNAME\<close> starts with \<open>SH\<close>, with their \<open>VATPRICE\<close>.\<close>

definition find_priority_shipping_items :: "priority_item list \<Rightarrow> (string \<times> rat) list" where
  "find_priority_shipping_items priority_items =
     map (\<lambda>item. (priority_partname item, get_or (VATPRICE item) 0))
       (filter (\<lambda>item. starts_with ''SH'' (priority_partname item)) priority_items)"

definition validate_shipping_charges ::
  "priority_item list \<Rightarrow> ai_item list \<Rightarrow> shipping_info option \<Rightarrow> shipping_validation" where
  "validate_shipping_charges priority_items ai_items ai_shipping_info =
     (let priority_shipping_items0 = find_priority_shipping_items priority_items;
          total_priority_shipping = sum_list (map snd priority_shipping_items0);
          ai_shipping_extracted0 =
            (case ai_shipping_info of
               Some info \<Rightarrow> Some info
             | None \<Rightarrow> extract_ai_shipping_info ai_items);
          ai_shipping_price =
            (case ai_shipping_extracted0 of
               Some info \<Rightarrow> get_or (price_numeric info) 0
             | None \<Rightarrow> 0);
          has_priority_shipping = (length priority_shipping_items0 > 0);
          has_ai_shipping = (ai_shipping_extracted0 \<noteq> None);
          shipping_validation0 =
            \<lparr> shipping_validation_passed = True, validation_case = [],
              priority_shipping_items = priority_shipping_items0,
              priority_shipping_total = total_priority_shipping,
              ai_shipping_extracted = ai_shipping_extracted0,
              shipping_match = False, shipping_price_difference = 0 \<rparr>
      in if has_priority_shipping \<and> has_ai_shipping then
           (let price_difference0 = \<bar>total_priority_shipping - ai_shipping_price\<bar>;
                shipping_match0 = (price_difference0 < 1 / 100)
            in shipping_validation0\<lparr> validation_case := ''both_exist_compare_prices'',
                                      shipping_match := shipping_match0,
                                      shipping_price_difference := price_difference0,
                                      shipping_validation_passed := shipping_match0 \<rparr>)
         else if has_priority_shipping \<and> \<not> has_ai_shipping then
           shipping_validation0\<lparr> validation_case := ''priority_has_ai_missing'',
                                  shipping_match := False,
                                  shipping_validation_passed := False \<rparr>
         else if \<not> has_priority_shipping \<and> has_ai_shipping then
           shipping_validation0\<lparr> validation_case := ''ai_has_priority_missing'',
                                  shipping_match := False,
                                  shipping_validation_passed := False \<rparr>
         else
           shipping_validation0\<lparr> validation_case := ''neither_has_shipping'',
                                  shipping_match := True,
                                  shipping_validation_passed := True \<rparr>)"

text \<open>
  The two sides of the decision table: shipping is present on the authoritative side when
  some item carries the prefix \<open>SH\<close>, and on the extracted side when the caller gave a
  hint or some extracted item holds a shipping keyword.
\<close>

definition authoritative_shipping_present :: "priority_item list \<Rightarrow> bool" where
  "authoritative_shipping_present priority_items =
     (\<exists>item\<in>set priority_items. starts_with ''SH'' (priority_partname item))"

definition extracted_shipping_present :: "ai_item list \<Rightarrow> shipping_info option \<Rightarrow> bool" where
  "extracted_shipping_present ai_items ai_shipping_info =
     (ai_shipping_info \<noteq> None
      \<or> (\<exists>item\<in>set ai_items. \<exists>keyword\<in>set shipping_keywords.
            py_in keyword (shipping_item_text item)))"

text \<open>The normalized total of the extracted side that the result carries.\<close>

definition extracted_shipping_total :: "shipping_validation \<Rightarrow> rat" where
  "extracted_shipping_total result =
     (case ai_shipping_extracted result of
        Some info \<Rightarrow> get_or (price_numeric info) 0
      | None \<Rightarrow> 0)"

section \<open>Approval decision: \<open>get_order_data\<close>, \<open>update_order_items\<close> and \<open>update_final_status\<close>\<close>

text \<open>
  The two values of \<open>STATDES\<close> the engine writes are Hebrew string literals in the source:
  the supplier approval status is \<open>Approved\<close> here and the sent-to-supplier status is
  \<open>SentBackForReview\<close>.
\<close>

datatype order_status = Approved | SentBackForReview

text \<open>
  The reason text: the fixed text of a perfect match, or \<open>Validation failed:\<close> followed by
  the issues joined with commas, in this order.
\<close>

datatype issue =
    TotalPriceMismatch
  | ItemDiscrepancies
  | ItemCountMismatch
  | MissingInAi nat
  | ShippingFailed

datatype status_reason = PerfectMatch | ValidationFailed "issue list"

text \<open>
  The entry \<open>final_status_update\<close> that \<open>update_final_status\<close> stores: the key
  \<open>final_status\<close> on success, \<open>intended_status\<close> on failure.
\<close>

record final_status_update =
  attempted :: bool
  success :: bool
  final_status :: "order_status option"
  intended_status :: "order_status option"
  reason :: status_reason

text \<open>
  The dict \<open>price_validation\<close>. The keys that \<open>update_final_status\<close> reads with
  \<open>get(key, default)\<close> are optional; \<open>item_validation\<close> and \<open>shipping_validation\<close> hold
  the results of the two validators when present.
\<close>

record price_validation =
  priority_totprice :: rat
  ai_total_price_raw :: "string option"
  ai_total_price :: "rat option"
  validation_attempted :: "bool option"
  price_match :: "bool option"
  price_difference :: rat
  item_validation :: "validation_results option"
  shipping_validation :: "shipping_validation option"
  overall_validation_pass :: "bool option"
  final_status_update :: "final_status_update option"

text \<open>
  \<open>get_order_data\<close>, lines 83-134: the total price part of the result, from \<open>TOTPRICE\<close>
  and the extracted total the caller passes (\<open>None\<close> when it passes none).
\<close>

definition total_price_validation :: "rat \<Rightarrow> string option \<Rightarrow> price_validation" where
  "total_price_validation totprice ai_total_price_arg =
     (let price_validation0 =
            \<lparr> priority_totprice = totprice,
              ai_total_price_raw = ai_total_price_arg,
              ai_total_price = None,
              validation_attempted = Some (ai_total_price_arg \<noteq> None),
              price_match = Some False,
              price_difference = 0,
              item_validation = None, shipping_validation = None,
              overall_validation_pass = None, final_status_update = None \<rparr>
      in case ai_total_price_arg of
           Some raw \<Rightarrow>
             (let ai_price_numeric0 = PriorityAPIClient_extract_numeric_price raw;
                  price_difference0 = \<bar>totprice - ai_price_numeric0\<bar>
              in price_validation0\<lparr> ai_total_price := Some ai_price_numeric0,
                                     price_match := Some (price_difference0 < 1 / 100),
                                     price_difference := price_difference0 \<rparr>)
         | None \<Rightarrow> price_validation0)"

text \<open>
  \<open>update_order_items\<close>, lines 216-231: the two validators' results are stored, and the
  overall verdict when a total price comparison was attempted.
\<close>

definition store_validations ::
  "price_validation \<Rightarrow> validation_results \<Rightarrow> shipping_validation \<Rightarrow> price_validation" where
  "store_validations pv item_validation_results shipping_validation_results =
     (let pv1 = pv\<lparr> item_validation := Some item_validation_results,
                     shipping_validation := Some shipping_validation_results \<rparr>
      in if get_or (validation_attempted pv1) False
         then pv1\<lparr> overall_validation_pass :=
                      Some (get_or (price_match pv1) False
                            \<and> all_items_valid item_validation_results
                            \<and> shipping_validation_passed shipping_validation_results) \<rparr>
         else pv1)"

text \<open>The five criteria as \<open>update_final_status\<close> reads them (lines 523-527).\<close>

definition criterion_price_match :: "price_validation \<Rightarrow> bool" where
  "criterion_price_match pv = get_or (price_match pv) False"

definition criterion_all_items_valid :: "price_validation \<Rightarrow> bool" where
  "criterion_all_items_valid pv =
     (case item_validation pv of Some iv \<Rightarrow> all_items_valid iv | None \<Rightarrow> False)"

definition criterion_item_count_match :: "price_validation \<Rightarrow> bool" where
  "criterion_item_count_match pv =
     (case item_validation pv of Some iv \<Rightarrow> item_count_match iv | None \<Rightarrow> False)"

definition criterion_shipping_valid :: "price_validation \<Rightarrow> bool" where
  "criterion_shipping_valid pv =
     (case shipping_validation pv of Some sv \<Rightarrow> shipping_validation_passed sv | None \<Rightarrow> True)"

definition missing_in_ai_count :: "price_validation \<Rightarrow> nat" where
  "missing_in_ai_count pv =
     (case item_validation pv of Some iv \<Rightarrow> length (missing_in_ai iv) | None \<Rightarrow> 0)"

definition criterion_no_missing_items :: "price_validation \<Rightarrow> bool" where
  "criterion_no_missing_items pv = (missing_in_ai_count pv = 0)"

text \<open>Lines 539-561: the status to write and its reason.\<close>

definition decide_final_status :: "price_validation \<Rightarrow> order_status \<times> status_reason" where
  "decide_final_status pv =
     (if criterion_price_match pv \<and> criterion_all_items_valid pv
         \<and> criterion_item_count_match pv \<and> criterion_shipping_valid pv
         \<and> criterion_no_missing_items pv
      then (Approved, PerfectMatch)
      else (SentBackForReview,
            ValidationFailed
              ((if \<not> criterion_price_match pv then [TotalPriceMismatch] else [])
               @ (if \<not> criterion_all_items_valid pv then [ItemDiscrepancies] else [])
               @ (if \<not> criterion_item_count_match pv then [ItemCountMismatch] else [])
               @ (if \<not> criterion_no_missing_items pv
                  then [MissingInAi (missing_in_ai_count pv)] else [])
               @ (if \<not> criterion_shipping_valid pv then [ShippingFailed] else []))))"

text \<open>
  The remote system: what the \<open>PATCH\<close> of a status answers, an HTTP status code or a
  \<open>RequestException\<close>.
\<close>

datatype http_outcome = Response nat | RequestException

text \<open>
  The outcome of \<open>update_final_status\<close>: the boolean it returns, \<open>price_validation\<close> as
  it leaves it, and the status sent for writing (\<open>None\<close> when no request is made).
\<close>

record final_status_outcome =
  returned :: bool
  validation_after :: price_validation
  status_written :: "order_status option"

definition update_final_status ::
  "(order_status \<Rightarrow> http_outcome) \<Rightarrow> price_validation \<Rightarrow> final_status_outcome" where
  "update_final_status patch pv =
     (if get_or (validation_attempted pv) False then
        (let (new_status, status_reason0) = decide_final_status pv
         in case patch new_status of
              Response status_code \<Rightarrow>
                if status_code = 200 \<or> status_code = 204 then
                  \<lparr> returned = True,
                    validation_after = pv\<lparr> final_status_update :=
                      Some \<lparr> attempted = True, success = True,
                             final_status = Some new_status, intended_status = None,
                             reason = status_reason0 \<rparr> \<rparr>,
                    status_written = Some new_status \<rparr>
                else
                  \<lparr> returned = False,
                    validation_after = pv\<lparr> final_status_update :=
                      Some \<lparr> attempted = True, success = False,
                             final_status = None, intended_status = Some new_status,
                             reason = status_reason0 \<rparr> \<rparr>,
                    status_written = Some new_status \<rparr>
            | RequestException \<Rightarrow>
                \<lparr> returned = False,
                  validation_after = pv\<lparr> final_status_update :=
                    Some \<lparr> attempted = True, success = False,
                           final_status = None, intended_status = Some new_status,
                           reason = status_reason0 \<rparr> \<rparr>,
                  status_written = Some new_status \<rparr>)
      else \<lparr> returned = True, validation_after = pv, status_written = None \<rparr>)"

text \<open>
  The validation that \<open>update_order_items\<close> hands to \<open>update_final_status\<close> (lines 201-231):
  the total price part from \<open>get_order_data\<close>, the item validation on the Priority items
  without the \<open>SH\<close> items, which \<open>get_order_data\<close> filters out, and the shipping validation
  on all of them.
\<close>

definition order_validation ::
  "rat \<Rightarrow> priority_item list \<Rightarrow> string option \<Rightarrow> ai_item list \<Rightarrow> shipping_info option
     \<Rightarrow> price_validation" where
  "order_validation totprice original_items extracted_total_price validation_items
       ai_shipping_info =
     store_validations (total_price_validation totprice extracted_total_price)
       (validate_items_detail
          (filter (\<lambda>item. \<not> starts_with ''SH'' (priority_partname item)) original_items)
          validation_items)
       (validate_shipping_charges original_items validation_items ai_shipping_info)"

section \<open>Delivery date calculator: \<open>calculate_priority_date\<close>\<close>

text \<open>
  A \<open>datetime\<close> at midnight is modelled by its proleptic Gregorian ordinal, the value of
  \<open>toordinal()\<close>: day 1 is 01.01.0001, a Monday. The functions below are those of Python's
  \<open>datetime\<close> module: \<open>_is_leap\<close>, \<open>_days_in_month\<close>, \<open>_days_before_year\<close>,
  \<open>_days_before_month\<close>, \<open>_ymd2ord\<close> and \<open>_ord2ymd\<close>.
\<close>

definition is_leap :: "int \<Rightarrow> bool" where
  "is_leap year = (year mod 4 = 0 \<and> (year mod 100 \<noteq> 0 \<or> year mod 400 = 0))"

definition DAYS_IN_MONTH :: "int list" where
  "DAYS_IN_MONTH = [- 1, 31, 28, 31, 30, 31, 30, 31, 31, 30, 31, 30, 31]"

definition DAYS_BEFORE_MONTH :: "int list" where
  "DAYS_BEFORE_MONTH = [- 1, 0, 31, 59, 90, 120, 151, 181, 212, 243, 273, 304, 334]"

definition days_in_month :: "int \<Rightarrow> int \<Rightarrow> int" where
  "days_in_month year month =
     (if month = 2 \<and> is_leap year then 29 else DAYS_IN_MONTH ! nat month)"

definition days_before_year :: "int \<Rightarrow> int" where
  "days_before_year year =
     (let y = year - 1 in y * 365 + y div 4 - y div 100 + y div 400)"

definition days_before_month :: "int \<Rightarrow> int \<Rightarrow> int" where
  "days_before_month year month =
     DAYS_BEFORE_MONTH ! nat month + (if month > 2 \<and> is_leap year then 1 else 0)"

definition ymd2ord :: "int \<Rightarrow> int \<Rightarrow> int \<Rightarrow> int" where
  "ymd2ord year month day = days_before_year year + days_before_month year month + day"

text \<open>
  The last lines of \<open>_ord2ymd\<close>: the month and the day of the month from the day of the
  year, counted from 0, with an estimate of the month that is corrected when too large.
\<close>

definition month_and_day :: "int \<Rightarrow> bool \<Rightarrow> int \<times> int" where
  "month_and_day n leapyear =
     (let month = (n + 50) div 32;
          preceding = DAYS_BEFORE_MONTH ! nat month
                        + (if month > 2 \<and> leapyear then 1 else 0)
      in if preceding > n then
           (let month1 = month - 1;
                preceding1 = preceding - (DAYS_IN_MONTH ! nat month1
                               + (if month1 = 2 \<and> leapyear then 1 else 0))
            in (month1, n - preceding1 + 1))
         else (month, n - preceding + 1))"

definition ord2ymd :: "int \<Rightarrow> int \<times> int \<times> int" where
  "ord2ymd ordinal =
     (let n0 = ordinal - 1;
          n400 = n0 div 146097; r400 = n0 mod 146097;
          n100 = r400 div 36524; r100 = r400 mod 36524;
          n4 = r100 div 1461; r4 = r100 mod 1461;
          n1 = r4 div 365; n = r4 mod 365;
          year = n400 * 400 + 1 + n100 * 100 + n4 * 4 + n1
      in if n1 = 4 \<or> n100 = 4 then (year - 1, 12, 31)
         else
           (let leapyear = (n1 = 3 \<and> (n4 \<noteq> 24 \<or> n100 = 3))
            in case month_and_day n leapyear of (month, day) \<Rightarrow> (year, month, day)))"

text \<open>
  \<open>datetime(year, month, day)\<close> raises \<open>ValueError\<close> outside the years 1 to 9999, the
  months 1 to 12 and the days of the month.
\<close>

definition MAXORDINAL :: int where
  "MAXORDINAL = 3652059"

definition py_datetime :: "int \<Rightarrow> int \<Rightarrow> int \<Rightarrow> py_error + int" where
  "py_datetime year month day =
     (if 1 \<le> year \<and> year \<le> 9999 \<and> 1 \<le> month \<and> month \<le> 12
         \<and> 1 \<le> day \<and> day \<le> days_in_month year month
      then Inr (ymd2ord year month day) else Inl ValueError)"

text \<open>\<open>d + timedelta(days=k)\<close> raises \<open>OverflowError\<close> when it leaves the range of dates.\<close>

definition add_days :: "int \<Rightarrow> int \<Rightarrow> py_error + int" where
  "add_days ordinal k =
     (if 1 \<le> ordinal + k \<and> ordinal + k \<le> MAXORDINAL then Inr (ordinal + k)
      else Inl OverflowError)"

text \<open>\<open>weekday()\<close>: Monday is 0 and Sunday is 6.\<close>

definition weekday :: "int \<Rightarrow> int" where
  "weekday ordinal = (ordinal + 6) mod 7"

text \<open>The Monday that starts the week of a day.\<close>

definition week_start :: "int \<Rightarrow> int" where
  "week_start ordinal = ordinal - weekday ordinal"

text \<open>
  \<open>strftime("%d/%m/%Y")\<close>: two digits for the day and the month, and the year with four
  digits (below the year 1000 the C library decides whether \<open>%Y\<close> pads; four digits
  are taken here).
\<close>

definition digit_char :: "int \<Rightarrow> char" where
  "digit_char k = ''0123456789'' ! nat k"

definition pad2 :: "int \<Rightarrow> string" where
  "pad2 k = [digit_char (k div 10 mod 10), digit_char (k mod 10)]"

definition pad4 :: "int \<Rightarrow> string" where
  "pad4 k = [digit_char (k div 1000 mod 10), digit_char (k div 100 mod 10),
             digit_char (k div 10 mod 10), digit_char (k mod 10)]"

definition strftime_dmy :: "int \<Rightarrow> string" where
  "strftime_dmy ordinal =
     (case ord2ymd ordinal of
        (year, month, day) \<Rightarrow> pad2 day @ ''/'' @ pad2 month @ ''/'' @ pad4 year)"

text \<open>
  \<open>datetime.strptime(s, "%d/%m/%Y")\<close>: the string must be a day, a month and a year
  between slashes and nothing else, the day matching \<open>3[0-1]|[1-2]\d|0[1-9]|[1-9]| [1-9]\<close>,
  the month \<open>1[0-2]|0[1-9]|[1-9]\<close> and the year \<open>\d\d\d\d\<close>; the date must exist.
\<close>

definition is_nonzero_digit :: "char \<Rightarrow> bool" where
  "is_nonzero_digit c = (is_digit c \<and> c \<noteq> CHR ''0'')"

definition strptime_day_field :: "string \<Rightarrow> bool" where
  "strptime_day_field f =
     (case f of
        [a] \<Rightarrow> is_nonzero_digit a
      | [a, b] \<Rightarrow>
          (a = CHR ''3'' \<and> (b = CHR ''0'' \<or> b = CHR ''1''))
          \<or> ((a = CHR ''1'' \<or> a = CHR ''2'') \<and> is_digit b)
          \<or> (a = CHR ''0'' \<and> is_nonzero_digit b)
          \<or> (a = CHR '' '' \<and> is_nonzero_digit b)
      | _ \<Rightarrow> False)"

definition strptime_month_field :: "string \<Rightarrow> bool" where
  "strptime_month_field f =
     (case f of
        [a] \<Rightarrow> is_nonzero_digit a
      | [a, b] \<Rightarrow>
          (a = CHR ''1'' \<and> (b = CHR ''0'' \<or> b = CHR ''1'' \<or> b = CHR ''2''))
          \<or> (a = CHR ''0'' \<and> is_nonzero_digit b)
      | _ \<Rightarrow> False)"

definition strptime_dmy :: "string \<Rightarrow> py_error + int" where
  "strptime_dmy s =
     (case split_on (CHR ''/'') s of
        [d, m, y] \<Rightarrow>
          if strptime_day_field d \<and> strptime_month_field m
             \<and> length y = 4 \<and> list_all is_digit y
          then py_datetime (int (nat_of_digits y)) (int (nat_of_digits m))
                 (int (nat_of_digits (filter is_digit d)))
          else Inl ValueError
      | _ \<Rightarrow> Inl ValueError)"

text \<open>Lines 452-461: the delivery date as \<open>DD.MM.YYYY\<close>, or else as \<open>DD/MM/YYYY\<close>.\<close>

definition parse_delivery_date :: "string \<Rightarrow> py_error + int" where
  "parse_delivery_date delivery_date_str =
     (if CHR ''.'' \<in> set delivery_date_str then
        (let date_parts = split_on (CHR ''.'') delivery_date_str
         in if length date_parts = 3 then
              (case py_int (date_parts ! 2) of
                 Inl e \<Rightarrow> Inl e
               | Inr year \<Rightarrow>
                   (case py_int (date_parts ! 1) of
                      Inl e \<Rightarrow> Inl e
                    | Inr month \<Rightarrow>
                        (case py_int (date_parts ! 0) of
                           Inl e \<Rightarrow> Inl e
                         | Inr day \<Rightarrow> py_datetime year month day)))
            else Inl ValueError)
      else strptime_dmy delivery_date_str)"

text \<open>Line 504: what the \<open>except\<close> branch returns.\<close>

definition date_fallback :: "string \<Rightarrow> string" where
  "date_fallback delivery_date_str =
     (if CHR ''.'' \<in> set delivery_date_str
      then replace_char (CHR ''.'') (CHR ''/'') delivery_date_str
      else delivery_date_str)"

definition special_address :: "string \<Rightarrow> bool" where
  "special_address delivery_address =
     (py_in ''12 Bet'' delivery_address \<and> py_in ''St.'' delivery_address)"

text \<open>
  Lines 463-499, on the parsed date: the date to write, or the exception that the
  arithmetic raises.
\<close>

definition priority_date_of :: "int \<Rightarrow> string \<Rightarrow> py_error + int" where
  "priority_date_of original_date delivery_address =
     (case add_days original_date (- 6) of
        Inl e \<Rightarrow> Inl e
      | Inr calculated_date \<Rightarrow>
          if special_address delivery_address then
            (let days_since_monday = weekday calculated_date;
                 days_to_thursday = 3 - days_since_monday
             in add_days calculated_date days_to_thursday)
          else if weekday calculated_date = 5 then add_days calculated_date (- 1)
          else Inr calculated_date)"

text \<open>
  \<open>calculate_priority_date\<close>: the string returned, and the exception reported by the
  \<open>except\<close> branch when there was one.
\<close>

definition calculate_priority_date :: "string \<Rightarrow> string \<Rightarrow> string \<times> py_error option" where
  "calculate_priority_date delivery_date_str delivery_address =
     (case parse_delivery_date delivery_date_str of
        Inl e \<Rightarrow> (date_fallback delivery_date_str, Some e)
      | Inr original_date \<Rightarrow>
          (case priority_date_of original_date delivery_address of
             Inl e \<Rightarrow> (date_fallback delivery_date_str, Some e)
           | Inr priority_date \<Rightarrow> (strftime_dmy priority_date, None)))"

section \<open>\<open>OrderValidator.validate_orders\<close>\<close>
















section \<open>Example orders\<close>

definition example_priority_item :: "string \<Rightarrow> int \<Rightarrow> rat \<Rightarrow> priority_item" where
  "example_priority_item code qty vat =
     \<lparr> PARTNAME = Some code, TQUANT = Some qty, VATPRICE = Some vat \<rparr>"

definition example_ai_item :: "string \<Rightarrow> string \<Rightarrow> string \<Rightarrow> string \<Rightarrow> ai_item" where
  "example_ai_item code descr qty amount =
     \<lparr> product_code = Some code, description = Some descr, item_description = None,
       name = None, partname = None, quantity = Some qty, item_total = Some amount,
       price = None, total_price = None \<rparr>"

definition example_priority_items :: "priority_item list" where
  "example_priority_items =
     [example_priority_item ''A1'' 1 (38304 / 100), example_priority_item ''B2'' 2 10]"

definition example_ai_items :: "ai_item list" where
  "example_ai_items =
     [example_ai_item ''A1'' ''Column'' ''1 EA'' ''USD 383.04'',
      example_ai_item ''C3'' ''Vial'' ''2 EA'' ''USD 10,00'']"

definition example_shipping_priority_items :: "priority_item list" where
  "example_shipping_priority_items =
     [example_priority_item ''A1'' 1 (38304 / 100), example_priority_item ''SH-AGILENT'' 1 50]"

definition example_plain_priority_items :: "priority_item list" where
  "example_plain_priority_items = [example_priority_item ''A1'' 1 (38304 / 100)]"

definition example_shipping_ai_items :: "string \<Rightarrow> ai_item list" where
  "example_shipping_ai_items amount =
     [example_ai_item ''A1'' ''Column'' ''1 EA'' ''USD 383.04'',
      example_ai_item ''FRT'' ''Shipping & Handling'' ''1'' amount]"

definition example_plain_ai_items :: "ai_item list" where
  "example_plain_ai_items = [example_ai_item ''A1'' ''Column'' ''1 EA'' ''USD 383.04'']"

text \<open>An order that matches in every respect, and one whose shipping charge is unconfirmed.\<close>

definition example_matching_validation :: price_validation where
  "example_matching_validation =
     order_validation (38304 / 100) example_plain_priority_items (Some ''USD 383.04'')
       example_plain_ai_items None"

definition example_shipping_failure :: price_validation where
  "example_shipping_failure =
     order_validation (43304 / 100) example_shipping_priority_items (Some ''USD 433,04'')
       example_plain_ai_items None"

definition example_without_total :: price_validation where
  "example_without_total =
     order_validation (38304 / 100) example_plain_priority_items None
       example_plain_ai_items None"

definition example_remote_accepts :: "order_status \<Rightarrow> http_outcome" where
  "example_remote_accepts new_status = Response 200"




section \<open>Properties of the numeric normalizers\<close>

lemma lower_char_id:
  "c \<notin> set ''ABCDEFGHIJKLMNOPQRSTUVWXYZ'' \<Longrightarrow> lower_char c = c"
  by (simp add: lower_char_def)

lemma is_digit_not_upper: "is_digit c \<Longrightarrow> c \<notin> set ''ABCDEFGHIJKLMNOPQRSTUVWXYZ''"
  by (auto simp: is_digit_def)

lemma is_digit_chars:
  "is_digit c \<Longrightarrow> \<not> is_space c \<and> c \<noteq> CHR ''U'' \<and> c \<noteq> CHR ''_'' \<and> c \<noteq> CHR ''-'' \<and> c \<noteq> CHR ''+''
     \<and> c \<noteq> CHR ''.'' \<and> c \<noteq> CHR '','' \<and> lower_char c = c"
  using lower_char_id[OF is_digit_not_upper, of c]
  by (auto simp: is_digit_def is_space_def)

lemma sep_chars:
  "\<not> is_space (CHR ''.'')" "\<not> is_space (CHR '','')" "\<not> is_space (CHR ''-'')"
  "lower_char (CHR ''.'') = CHR ''.''" "lower_char (CHR '','') = CHR '',''"
  "lower_char (CHR ''-'') = CHR ''-''"
  by (simp_all add: is_space_def lower_char_def)

lemma replace_USD_id: "CHR ''U'' \<notin> set s \<Longrightarrow> replace_USD s = s"
  by (induction s) auto

lemma py_strip_id: "\<forall>c\<in>set s. \<not> is_space c \<Longrightarrow> py_strip s = s"
proof -
  assume a: "\<forall>c\<in>set s. \<not> is_space c"
  have "dropWhile is_space s = s" using a by (cases s) auto
  moreover have "dropWhile is_space (rev s) = rev s" using a by (cases "rev s") (auto simp: )
  ultimately show ?thesis by (simp add: py_strip_def)
qed

lemma plainish_chars:
  assumes "plainish s" "c \<in> set s"
  shows "\<not> is_space c" "c \<noteq> CHR ''_''" "lower_char c = c" "c \<noteq> CHR ''U''"
proof -
  have d: "is_digit c \<or> c = CHR ''.'' \<or> c = CHR '','' \<or> c = CHR ''-''"
    using assms by (simp add: plainish_def)
  show "\<not> is_space c" using d is_digit_chars[of c] sep_chars by blast
  show "c \<noteq> CHR ''_''" using d is_digit_chars[of c] by auto
  show "lower_char c = c" using d is_digit_chars[of c] sep_chars by blast
  show "c \<noteq> CHR ''U''" using d is_digit_chars[of c] by auto
qed

lemma plainish_normal:
  assumes "plainish s"
  shows "py_lower (remove_char (CHR ''_'') (py_strip s)) = s"
proof -
  have "py_strip s = s" using plainish_chars(1)[OF assms] by (intro py_strip_id) blast
  moreover have "remove_char (CHR ''_'') s = s"
    using plainish_chars(2)[OF assms] by (simp add: remove_char_def filter_id_conv)
  moreover have "py_lower s = s"
    using plainish_chars(3)[OF assms] by (simp add: py_lower_def map_idI)
  ultimately show ?thesis by simp
qed


lemma decimal_unsigned_Nil: "decimal_unsigned [] = Inl InvalidOperation"
  by (simp add: decimal_unsigned_def decimal_mantissa_def)

lemma py_decimal_Nil: "py_decimal [] = Inl InvalidOperation"
  by (simp add: py_decimal_def py_strip_def py_lower_def remove_char_def)

lemma py_decimal_plain:
  assumes "\<forall>c\<in>set w. is_digit c \<or> c = CHR ''.''"
  shows "py_decimal w = decimal_unsigned w"
proof (cases w)
  case Nil
  then show ?thesis by (simp add: py_decimal_Nil decimal_unsigned_Nil)
next
  case (Cons c r)
  have p: "plainish w" using assms by (auto simp: plainish_def)
  have "is_digit c \<or> c = CHR ''.''" using assms Cons by simp
  then have "c \<noteq> CHR ''-''" "c \<noteq> CHR ''+''" using is_digit_chars[of c] by auto
  then show ?thesis using plainish_normal[OF p] Cons by (simp add: py_decimal_def)
qed

lemma py_decimal_dash:
  assumes "\<forall>c\<in>set w. is_digit c \<or> c = CHR ''.''"
  shows "py_decimal (CHR ''-'' # w) =
           (case decimal_unsigned w of Inr d \<Rightarrow> Inr (dec_neg d) | Inl e \<Rightarrow> Inl e)"
proof -
  have p: "plainish (CHR ''-'' # w)" using assms by (auto simp: plainish_def)
  show ?thesis using plainish_normal[OF p] by (simp add: py_decimal_def)
qed

lemma european_comma_plain:
  assumes "numeric_body body"
  shows "\<forall>c\<in>set (european_comma body). is_digit c \<or> c = CHR ''.''"
proof -
  have h: "\<forall>c\<in>set body. is_digit c \<or> c = CHR ''.'' \<or> c = CHR '',''"
    using assms by (simp add: numeric_body_def list_all_iff)
  show ?thesis
  proof (cases "CHR '','' \<in> set body")
    case True
    then show ?thesis using h by (auto simp: european_comma_def replace_char_def remove_char_def)
  next
    case False
    then show ?thesis using h by (auto simp: european_comma_def)
  qed
qed

lemma european_comma_dash:
  "european_comma (body @ ''-'') = european_comma body @ ''-''"
  by (simp add: european_comma_def replace_char_def remove_char_def)

lemma trailing_dash_plain:
  assumes "CHR ''-'' \<notin> set w"
  shows "trailing_dash w = w" "trailing_dash (w @ ''-'') = CHR ''-'' # w"
proof -
  have "w \<noteq> [] \<Longrightarrow> last w \<noteq> CHR ''-''" using assms last_in_set[of w] by metis
  then show "trailing_dash w = w" by (auto simp: trailing_dash_def)
  show "trailing_dash (w @ ''-'') = CHR ''-'' # w" by (simp add: trailing_dash_def)
qed


lemma clean_number_numeric_body:
  assumes "numeric_body body"
  shows "clean_number body =
           (case decimal_unsigned (european_comma body) of Inr d \<Rightarrow> d | Inl e \<Rightarrow> Num 0)"
    and "clean_number (body @ ''-'') =
           (case decimal_unsigned (european_comma body) of Inr d \<Rightarrow> dec_neg d | Inl e \<Rightarrow> Num 0)"
proof -
  have h: "\<forall>c\<in>set body. is_digit c \<or> c = CHR ''.'' \<or> c = CHR '',''"
    using assms by (simp add: numeric_body_def list_all_iff)
  have nu: "CHR ''U'' \<notin> set body" using h is_digit_chars by auto
  have ns: "\<forall>c\<in>set body. \<not> is_space c" using h is_digit_chars sep_chars by blast
  have ns': "\<forall>c\<in>set (body @ ''-''). \<not> is_space c" using ns sep_chars by simp
  have r1: "py_strip (replace_USD body) = body"
    using replace_USD_id[OF nu] py_strip_id[OF ns] by simp
  have nu': "CHR ''U'' \<notin> set (body @ ''-'')" using nu by simp
  have r2: "py_strip (replace_USD (body @ ''-'')) = body @ ''-''"
    using replace_USD_id[OF nu'] py_strip_id[OF ns'] by simp
  let ?w = "european_comma body"
  have hw: "\<forall>c\<in>set ?w. is_digit c \<or> c = CHR ''.''" using european_comma_plain[OF assms] .
  have nd: "CHR ''-'' \<notin> set ?w" using hw is_digit_chars by auto
  show "clean_number body = (case decimal_unsigned ?w of Inr d \<Rightarrow> d | Inl e \<Rightarrow> Num 0)"
  proof (cases "body = []")
    case True
    then show ?thesis
      by (simp add: clean_number_def european_comma_def decimal_unsigned_Nil)
  next
    case False
    then show ?thesis
      by (simp add: clean_number_def r1 trailing_dash_plain(1)[OF nd] py_decimal_plain[OF hw])
  qed
  have "clean_number (body @ ''-'') =
          (case py_decimal (CHR ''-'' # ?w) of Inr d \<Rightarrow> d | Inl e \<Rightarrow> Num 0)"
    by (simp add: clean_number_def r2 european_comma_dash trailing_dash_plain(2)[OF nd])
  also have "\<dots> = (case decimal_unsigned ?w of Inr d \<Rightarrow> dec_neg d | Inl e \<Rightarrow> Num 0)"
    by (simp add: py_decimal_dash[OF hw] split: sum.splits)
  finally show "clean_number (body @ ''-'') =
           (case decimal_unsigned ?w of Inr d \<Rightarrow> dec_neg d | Inl e \<Rightarrow> Num 0)" .
qed

lemma clean_number_USD_prefix:
  assumes "numeric_body body"
  shows "clean_number (''USD '' @ body) =
           (case decimal_unsigned (european_comma body) of Inr d \<Rightarrow> d | Inl e \<Rightarrow> Num 0)"
    and "clean_number (''USD '' @ body @ ''-'') =
           (case decimal_unsigned (european_comma body) of Inr d \<Rightarrow> dec_neg d | Inl e \<Rightarrow> Num 0)"
proof -
  have h: "\<forall>c\<in>set body. is_digit c \<or> c = CHR ''.'' \<or> c = CHR '',''"
    using assms by (simp add: numeric_body_def list_all_iff)
  have nu: "CHR ''U'' \<notin> set body" using h is_digit_chars by auto
  have ns: "\<forall>c\<in>set body. \<not> is_space c" using h is_digit_chars sep_chars by blast
  have ns': "\<forall>c\<in>set (body @ ''-''). \<not> is_space c" using ns sep_chars by simp
  have nu': "CHR ''U'' \<notin> set (body @ ''-'')" using nu by simp
  have sp: "is_space (CHR '' '')" by (simp add: is_space_def)
  have st: "\<And>t. \<forall>c\<in>set t. \<not> is_space c \<Longrightarrow> py_strip (CHR '' '' # t) = t"
  proof -
    fix t assume a: "\<forall>c\<in>set t. \<not> is_space c"
    have "dropWhile is_space (CHR '' '' # t) = t" using a sp by (cases t) auto
    moreover have "dropWhile is_space (rev t) = rev t" using a by (cases "rev t") auto
    ultimately show "py_strip (CHR '' '' # t) = t" by (simp add: py_strip_def)
  qed
  note r1 = replace_USD_id[OF nu] st[OF ns]
  note r2 = replace_USD_id[OF nu'] st[OF ns']
  let ?w = "european_comma body"
  have hw: "\<forall>c\<in>set ?w. is_digit c \<or> c = CHR ''.''" using european_comma_plain[OF assms] .
  have nd: "CHR ''-'' \<notin> set ?w" using hw is_digit_chars by auto
  show "clean_number (''USD '' @ body) = (case decimal_unsigned ?w of Inr d \<Rightarrow> d | Inl e \<Rightarrow> Num 0)"
    by (simp add: clean_number_def r1 trailing_dash_plain(1)[OF nd] py_decimal_plain[OF hw])
  have "clean_number (''USD '' @ body @ ''-'') =
          (case py_decimal (CHR ''-'' # ?w) of Inr d \<Rightarrow> d | Inl e \<Rightarrow> Num 0)"
    by (simp add: clean_number_def r2 european_comma_dash trailing_dash_plain(2)[OF nd])
  also have "\<dots> = (case decimal_unsigned ?w of Inr d \<Rightarrow> dec_neg d | Inl e \<Rightarrow> Num 0)"
    by (simp add: py_decimal_dash[OF hw] split: sum.splits)
  finally show "clean_number (''USD '' @ body @ ''-'') =
           (case decimal_unsigned ?w of Inr d \<Rightarrow> dec_neg d | Inl e \<Rightarrow> Num 0)" .
qed

lemma keep_numeric_dash: "keep_numeric (s @ ''-'') = keep_numeric s"
  by (simp add: keep_numeric_def is_digit_def)

lemma extract_ignores_dash:
  "PriorityAPIClient_extract_numeric_price (s @ ''-'') = PriorityAPIClient_extract_numeric_price s"
  "ResponseHandler_extract_numeric_price (s @ ''-'') = ResponseHandler_extract_numeric_price s"
proof -
  have k: "keep_numeric [] = []" by (simp add: keep_numeric_def)
  show "PriorityAPIClient_extract_numeric_price (s @ ''-'') = PriorityAPIClient_extract_numeric_price s"
    unfolding PriorityAPIClient_extract_numeric_price_def keep_numeric_dash
    by (cases "s = []") (simp_all add: k)
  show "ResponseHandler_extract_numeric_price (s @ ''-'') = ResponseHandler_extract_numeric_price s"
    unfolding ResponseHandler_extract_numeric_price_def keep_numeric_dash
    by (cases "s = []") (simp_all add: k)
qed

text \<open>
  C9 (as amended). For a numeric string (digits, periods and commas, with or without the
  prefix \<open>USD \<close>) followed by a trailing dash, \<open>OrderValidator.clean_number\<close> returns
  the negated value of the string without the dash. The two \<open>_extract_numeric_price\<close>
  normalizers drop the dash with every other non-numeric character: their value is that
  of the string without the dash, not negated.
\<close>

theorem trailing_dash_convention:
  assumes "numeric_body body"
  shows "clean_number (body @ ''-'') = dec_neg (clean_number body)
       \<and> clean_number (''USD '' @ body @ ''-'') = dec_neg (clean_number (''USD '' @ body))
       \<and> PriorityAPIClient_extract_numeric_price (body @ ''-'')
           = PriorityAPIClient_extract_numeric_price body
       \<and> ResponseHandler_extract_numeric_price (body @ ''-'')
           = ResponseHandler_extract_numeric_price body"
proof -
  have n: "\<And>x. (case x of Inr d \<Rightarrow> dec_neg d | Inl (e::py_error) \<Rightarrow> Num 0)
             = dec_neg (case x of Inr d \<Rightarrow> d | Inl e \<Rightarrow> Num 0)"
    by (simp add: dec_neg_def split: sum.splits)
  have "clean_number (body @ ''-'') = dec_neg (clean_number body)"
    using clean_number_numeric_body[OF assms] n by simp
  moreover have "clean_number (''USD '' @ body @ ''-'') = dec_neg (clean_number (''USD '' @ body))"
    using clean_number_USD_prefix[OF assms] n by simp
  ultimately show ?thesis using extract_ignores_dash by simp
qed

lemmas decimal_eval = clean_number_def py_decimal_def decimal_unsigned_def decimal_mantissa_def
  decimal_exponent_def scale10_def dec_neg_def european_comma_def trailing_dash_def py_strip_def
  py_lower_def lower_char_def is_space_def is_digit_def digit_val_def nat_of_digits_def
  replace_char_def remove_char_def numeric_body_def

lemmas price_eval = PriorityAPIClient_extract_numeric_price_def
  ResponseHandler_extract_numeric_price_def keep_numeric_def is_digit_def rfind_def
  float_or_zero_def py_float_def replace_char_def remove_char_def nat_of_digits_def
  digit_val_def Let_def

theorem trailing_dash_convention_witness:
  "numeric_body ''10.00''
   \<and> clean_number ''10.00'' = Num 10 \<and> clean_number ''10.00-'' = Num (- 10)
   \<and> clean_number ''USD 10.00-'' = Num (- 10)
   \<and> PriorityAPIClient_extract_numeric_price ''10.00-'' = 10
   \<and> ResponseHandler_extract_numeric_price ''10.00-'' = 10"
proof -
  have b: "numeric_body ''10.00''" by (simp add: numeric_body_def is_digit_def)
  have v: "clean_number ''10.00'' = Num 10" by (simp add: decimal_eval)
  have u: "clean_number ''USD 10.00'' = Num 10" by (simp add: decimal_eval)
  have p: "PriorityAPIClient_extract_numeric_price ''10.00'' = 10" by (simp add: price_eval)
  have r: "ResponseHandler_extract_numeric_price ''10.00'' = 10" by (simp add: price_eval)
  show ?thesis
    using trailing_dash_convention[OF b] b v u p r by (simp add: dec_neg_def)
qed

theorem trailing_dash_dropped_counterexample:
  "PriorityAPIClient_extract_numeric_price ''10.00-''
     \<noteq> - PriorityAPIClient_extract_numeric_price ''10.00''"
  by (simp add: price_eval)

section \<open>Properties of the price thresholds\<close>



section \<open>The separator rule\<close>

lemma split_on_nonempty: "split_on a s \<noteq> []"
  by (induction s) (auto split: list.splits)

lemma split_on_no_sep: "a \<notin> set s \<Longrightarrow> split_on a s = [s]"
  by (induction s) auto

lemma split_on_first: "a \<notin> set p \<Longrightarrow> split_on a (p @ a # r) = p # split_on a r"
  by (induction p) auto

lemma length_split_on: "length (split_on a s) = Suc (count_char a s)"
proof (induction s)
  case Nil
  show ?case by (simp add: count_char_def)
next
  case (Cons c s)
  then show ?case using split_on_nonempty[of a s]
    by (cases "split_on a s") (auto simp: count_char_def)
qed

lemma single_sep_decompose:
  assumes "count_char a s = 1"
  obtains p r where "s = p @ a # r" "a \<notin> set p" "a \<notin> set r"
proof -
  have "a \<in> set s"
  proof (rule ccontr)
    assume "a \<notin> set s"
    then have "filter (\<lambda>c. c = a) s = []" by (auto simp: filter_empty_conv)
    then show False using assms by (simp add: count_char_def)
  qed
  then obtain p r where s: "s = p @ a # r" and p: "a \<notin> set p"
    using split_list_first[of a s] by blast
  have "filter (\<lambda>c. c = a) p = []" using p by (auto simp: filter_empty_conv)
  then have "length (filter (\<lambda>c. c = a) r) = 0" using assms s by (simp add: count_char_def)
  then have "a \<notin> set r" by (auto simp: filter_empty_conv)
  then show ?thesis using that s p by blast
qed

lemma single_sep_parts:
  assumes "count_char a s = 1"
  shows "length (split_on a s ! 1) = chars_after_last a s"
    and "length (split_on a s ! 0) = chars_before_first a s"
proof -
  obtain p r where s: "s = p @ a # r" and p: "a \<notin> set p" and r: "a \<notin> set r"
    using single_sep_decompose[OF assms] by blast
  have sp: "split_on a s = [p, r]" using s p r by (simp add: split_on_first split_on_no_sep)
  have "\<And>x. x \<in> set (rev r) \<Longrightarrow> x \<noteq> a" using r by auto
  then have "takeWhile (\<lambda>c. c \<noteq> a) (rev r @ a # rev p)
               = rev r @ takeWhile (\<lambda>c. c \<noteq> a) (a # rev p)"
    by (rule takeWhile_append2)
  then have "takeWhile (\<lambda>c. c \<noteq> a) (rev r @ a # rev p) = rev r" by simp
  then show "length (split_on a s ! 1) = chars_after_last a s"
    using sp s by (simp add: chars_after_last_def)
  have "\<And>x. x \<in> set p \<Longrightarrow> x \<noteq> a" using p by auto
  then have "takeWhile (\<lambda>c. c \<noteq> a) (p @ a # r) = p @ takeWhile (\<lambda>c. c \<noteq> a) (a # r)"
    by (rule takeWhile_append2)
  then have "takeWhile (\<lambda>c. c \<noteq> a) (p @ a # r) = p" by simp
  then show "length (split_on a s ! 0) = chars_before_first a s"
    using sp s by (simp add: chars_before_first_def)
qed

lemma chars_after_last_Cons:
  "chars_after_last a (c # s) =
     (if a \<in> set s then chars_after_last a s
      else if c = a then length s else Suc (length s))"
proof (cases "a \<in> set s")
  case True
  then have "a \<in> set (rev s)" "\<not> (a \<noteq> a)" by auto
  then have "takeWhile (\<lambda>c. c \<noteq> a) (rev s @ [c]) = takeWhile (\<lambda>c. c \<noteq> a) (rev s)"
    by (rule takeWhile_append1)
  then show ?thesis using True by (simp add: chars_after_last_def)
next
  case False
  then have "\<And>x. x \<in> set (rev s) \<Longrightarrow> x \<noteq> a" by auto
  then have "takeWhile (\<lambda>c. c \<noteq> a) (rev s @ [c]) = rev s @ takeWhile (\<lambda>c. c \<noteq> a) [c]"
    by (rule takeWhile_append2)
  then show ?thesis using False by (simp add: chars_after_last_def)
qed

lemma rfind_from_eq:
  "rfind_from a s i found =
     (if a \<in> set s then i + int (length s) - 1 - int (chars_after_last a s) else found)"
proof (induction s arbitrary: i found)
  case Nil
  show ?case by simp
next
  case (Cons c s)
  show ?case
  proof (cases "a \<in> set s")
    case True
    then show ?thesis by (simp add: Cons.IH chars_after_last_Cons)
  next
    case False
    then show ?thesis by (auto simp: Cons.IH chars_after_last_Cons)
  qed
qed

lemma rfind_compare:
  assumes "a \<in> set s" "b \<in> set s"
  shows "rfind a s > rfind b s \<longleftrightarrow> chars_after_last a s < chars_after_last b s"
proof -
  have "rfind a s = int (length s) - 1 - int (chars_after_last a s)"
    using assms(1) by (simp add: rfind_def rfind_from_eq)
  moreover have "rfind b s = int (length s) - 1 - int (chars_after_last b s)"
    using assms(2) by (simp add: rfind_def rfind_from_eq)
  ultimately show ?thesis by linarith
qed


lemma keep_numeric_Nil: "keep_numeric [] = []"
  by (simp add: keep_numeric_def)

lemma float_or_zero_Nil: "float_or_zero [] = 0"
  by (simp add: float_or_zero_def)

lemma as_decimal_period: "as_decimal_separator (CHR ''.'') s = s"
  by (simp add: as_decimal_separator_def map_idI)

lemma two_parts_iff: "length (split_on a s) = 2 \<longleftrightarrow> count_char a s = 1"
  by (simp add: length_split_on)

lemma decimal_test:
  "(length (split_on a s) = 2 \<and> length (split_on a s ! 1) \<le> 2)
     \<longleftrightarrow> (count_char a s = 1 \<and> chars_after_last a s \<le> 2)"
  using single_sep_parts(1)[of a s] by (auto simp: two_parts_iff)

lemma three_test:
  "(length (split_on a s) = 2 \<and> length (split_on a s ! 1) = 3)
     \<longleftrightarrow> (count_char a s = 1 \<and> chars_after_last a s = 3)"
  using single_sep_parts(1)[of a s] by (auto simp: two_parts_iff)

lemma RH_both:
  assumes "CHR '','' \<in> set (keep_numeric s)" "CHR ''.'' \<in> set (keep_numeric s)"
  shows "ResponseHandler_extract_numeric_price s = spec_normalize_amount s"
    and "PriorityAPIClient_extract_numeric_price s = spec_normalize_amount s"
proof -
  have ne: "s \<noteq> []" "keep_numeric s \<noteq> []" using assms(1) keep_numeric_Nil by auto
  note rc = rfind_compare[OF assms]
  show "ResponseHandler_extract_numeric_price s = spec_normalize_amount s"
    using assms ne rc
    by (simp add: ResponseHandler_extract_numeric_price_def spec_normalize_amount_def
        spec_resolve_separators_def as_decimal_separator_def as_thousands_separator_def
        replace_char_def remove_char_def map_idI Let_def)
  show "PriorityAPIClient_extract_numeric_price s = spec_normalize_amount s"
    using assms ne rc
    by (simp add: PriorityAPIClient_extract_numeric_price_def spec_normalize_amount_def
        spec_resolve_separators_def as_decimal_separator_def as_thousands_separator_def
        replace_char_def remove_char_def map_idI Let_def)
qed

lemma period_only:
  assumes "CHR '','' \<notin> set (keep_numeric s)"
  shows "ResponseHandler_extract_numeric_price s = spec_normalize_amount s"
    and "PriorityAPIClient_extract_numeric_price s = spec_normalize_amount s"
proof -
  let ?c = "keep_numeric s"
  have e: "s = [] \<Longrightarrow> ?c = []" by (simp add: keep_numeric_Nil)
  note dt = decimal_test[of "CHR ''.''" ?c]
  show "ResponseHandler_extract_numeric_price s = spec_normalize_amount s"
    using assms e dt
    by (simp add: ResponseHandler_extract_numeric_price_def spec_normalize_amount_def
        spec_resolve_separators_def as_decimal_period as_thousands_separator_def
        remove_char_def float_or_zero_Nil Let_def)
  show "PriorityAPIClient_extract_numeric_price s = spec_normalize_amount s"
    using assms e dt
    by (simp add: PriorityAPIClient_extract_numeric_price_def spec_normalize_amount_def
        spec_resolve_separators_def as_decimal_period as_thousands_separator_def
        remove_char_def float_or_zero_Nil Let_def)
qed

lemma comma_only_PA:
  assumes "CHR '','' \<in> set (keep_numeric s)" "CHR ''.'' \<notin> set (keep_numeric s)"
  shows "PriorityAPIClient_extract_numeric_price s
           = float_or_zero (as_decimal_separator (CHR '','') (keep_numeric s))"
proof -
  have ne: "s \<noteq> []" "keep_numeric s \<noteq> []" using assms(1) keep_numeric_Nil by auto
  show ?thesis using assms ne
    by (simp add: PriorityAPIClient_extract_numeric_price_def as_decimal_separator_def
        replace_char_def Let_def)
qed

lemma comma_only_spec:
  assumes "CHR '','' \<in> set (keep_numeric s)" "CHR ''.'' \<notin> set (keep_numeric s)"
  shows "spec_normalize_amount s =
          (if count_char (CHR '','') (keep_numeric s) = 1
              \<and> chars_after_last (CHR '','') (keep_numeric s) \<le> 2
           then float_or_zero (as_decimal_separator (CHR '','') (keep_numeric s))
           else float_or_zero (as_thousands_separator (CHR '','') (keep_numeric s)))"
  using assms by (simp add: spec_normalize_amount_def spec_resolve_separators_def)

lemma comma_only_RH:
  assumes "CHR '','' \<in> set (keep_numeric s)" "CHR ''.'' \<notin> set (keep_numeric s)"
  shows "ResponseHandler_extract_numeric_price s =
          (if count_char (CHR '','') (keep_numeric s) = 1
              \<and> chars_after_last (CHR '','') (keep_numeric s) \<le> 2
           then float_or_zero (as_decimal_separator (CHR '','') (keep_numeric s))
           else if long_prefix_three_digits (keep_numeric s)
           then float_or_zero (as_decimal_separator (CHR '','') (keep_numeric s))
           else float_or_zero (as_thousands_separator (CHR '','') (keep_numeric s)))"
proof -
  let ?c = "keep_numeric s"
  have ne: "s \<noteq> []" "?c \<noteq> []" using assms(1) keep_numeric_Nil by auto
  note dt = decimal_test[of "CHR '',''" ?c] three_test[of "CHR '',''" ?c]
  have b: "count_char (CHR '','') ?c = 1 \<Longrightarrow>
             length (split_on (CHR '','') ?c ! 0) = chars_before_first (CHR '','') ?c"
    by (rule single_sep_parts(2))
  have u: "ResponseHandler_extract_numeric_price s =
     (if length (split_on (CHR '','') ?c) = 2 \<and> length (split_on (CHR '','') ?c ! 1) \<le> 2
      then float_or_zero (replace_char (CHR '','') (CHR ''.'') ?c)
      else if length (split_on (CHR '','') ?c) = 2 \<and> length (split_on (CHR '','') ?c ! 1) = 3 then
                (if length (split_on (CHR '','') ?c ! 0) \<le> 3
                 then float_or_zero (remove_char (CHR '','') ?c)
                 else float_or_zero (replace_char (CHR '','') (CHR ''.'') ?c))
      else float_or_zero (remove_char (CHR '','') ?c))"
    using assms ne by (simp add: ResponseHandler_extract_numeric_price_def Let_def)
  show ?thesis unfolding u dt
    using assms b
    by (auto simp: long_prefix_three_digits_def as_decimal_separator_def
        as_thousands_separator_def replace_char_def remove_char_def)
qed

lemmas spec_eval = spec_normalize_amount_def spec_resolve_separators_def count_char_def
  chars_after_last_def chars_before_first_def as_decimal_separator_def
  as_thousands_separator_def long_prefix_three_digits_def

text \<open>
  C4 (as amended). \<open>ResponseHandler._extract_numeric_price\<close> resolves separators by the
  stated rule, except that a single comma followed by exactly three characters and preceded
  by more than three is taken as the decimal separator. \<open>PriorityAPIClient._extract_numeric_price\<close>
  follows the rule when both separators occur, when only periods occur and when no
  separator occurs; a comma without a period it always takes as the decimal separator.
  \<open>OrderValidator.clean_number\<close>, on a numeric string with the prefix \<open>USD \<close>, removes
  every period and reads the comma as the decimal point whenever a comma occurs. The three
  examples of the specification hold for both \<open>_extract_numeric_price\<close> functions.
\<close>

theorem separator_resolution:
  "(\<not> long_prefix_three_digits (keep_numeric s)
      \<longrightarrow> ResponseHandler_extract_numeric_price s = spec_normalize_amount s)
   \<and> (long_prefix_three_digits (keep_numeric s)
      \<longrightarrow> ResponseHandler_extract_numeric_price s
           = float_or_zero (as_decimal_separator (CHR '','') (keep_numeric s)))
   \<and> (CHR '','' \<notin> set (keep_numeric s) \<or> CHR ''.'' \<in> set (keep_numeric s)
      \<longrightarrow> PriorityAPIClient_extract_numeric_price s = spec_normalize_amount s)
   \<and> (CHR '','' \<in> set (keep_numeric s) \<and> CHR ''.'' \<notin> set (keep_numeric s)
      \<longrightarrow> PriorityAPIClient_extract_numeric_price s
           = float_or_zero (as_decimal_separator (CHR '','') (keep_numeric s)))
   \<and> (numeric_body s
      \<longrightarrow> clean_number (''USD '' @ s)
           = (case decimal_unsigned (european_comma s) of Inr d \<Rightarrow> d | Inl e \<Rightarrow> Num 0))
   \<and> ResponseHandler_extract_numeric_price ''USD 7.157,16'' = 715716 / 100
   \<and> ResponseHandler_extract_numeric_price ''USD 1,234.56'' = 123456 / 100
   \<and> ResponseHandler_extract_numeric_price ''USD 129,00'' = 129
   \<and> PriorityAPIClient_extract_numeric_price ''USD 7.157,16'' = 715716 / 100
   \<and> PriorityAPIClient_extract_numeric_price ''USD 1,234.56'' = 123456 / 100
   \<and> PriorityAPIClient_extract_numeric_price ''USD 129,00'' = 129"
proof -
  let ?k = "keep_numeric s"
  have rh1: "\<not> long_prefix_three_digits ?k
               \<longrightarrow> ResponseHandler_extract_numeric_price s = spec_normalize_amount s"
  proof (cases "CHR '','' \<in> set ?k")
    case False
    then show ?thesis using period_only(1) by simp
  next
    case c: True
    show ?thesis
    proof (cases "CHR ''.'' \<in> set ?k")
      case True
      then show ?thesis using RH_both(1)[OF c] by simp
    next
      case False
      show ?thesis using comma_only_RH[OF c False] comma_only_spec[OF c False] by simp
    qed
  qed
  have rh2: "long_prefix_three_digits ?k
               \<longrightarrow> ResponseHandler_extract_numeric_price s
                    = float_or_zero (as_decimal_separator (CHR '','') ?k)"
  proof
    assume l: "long_prefix_three_digits ?k"
    then have c: "CHR '','' \<in> set ?k" and p: "CHR ''.'' \<notin> set ?k"
      by (simp_all add: long_prefix_three_digits_def)
    show "ResponseHandler_extract_numeric_price s
            = float_or_zero (as_decimal_separator (CHR '','') ?k)"
      using comma_only_RH[OF c p] l by simp
  qed
  have pa1: "CHR '','' \<notin> set ?k \<or> CHR ''.'' \<in> set ?k
               \<longrightarrow> PriorityAPIClient_extract_numeric_price s = spec_normalize_amount s"
    using period_only(2)[of s] RH_both(2)[of s] by blast
  have pa2: "CHR '','' \<in> set ?k \<and> CHR ''.'' \<notin> set ?k
               \<longrightarrow> PriorityAPIClient_extract_numeric_price s
                    = float_or_zero (as_decimal_separator (CHR '','') ?k)"
    using comma_only_PA[of s] by blast
  have cn: "numeric_body s \<longrightarrow> clean_number (''USD '' @ s)
           = (case decimal_unsigned (european_comma s) of Inr d \<Rightarrow> d | Inl e \<Rightarrow> Num 0)"
    using clean_number_USD_prefix(1)[of s] by blast
  have e1: "ResponseHandler_extract_numeric_price ''USD 7.157,16'' = 715716 / 100"
    by (simp add: price_eval)
  have e2: "ResponseHandler_extract_numeric_price ''USD 1,234.56'' = 123456 / 100"
    by (simp add: price_eval)
  have e3: "ResponseHandler_extract_numeric_price ''USD 129,00'' = 129"
    by (simp add: price_eval)
  have e4: "PriorityAPIClient_extract_numeric_price ''USD 7.157,16'' = 715716 / 100"
    by (simp add: price_eval)
  have e5: "PriorityAPIClient_extract_numeric_price ''USD 1,234.56'' = 123456 / 100"
    by (simp add: price_eval)
  have e6: "PriorityAPIClient_extract_numeric_price ''USD 129,00'' = 129"
    by (simp add: price_eval)
  show ?thesis using rh1 rh2 pa1 pa2 cn e1 e2 e3 e4 e5 e6 by blast
qed

theorem separator_resolution_witness:
  "long_prefix_three_digits (keep_numeric ''1234,567'')
   \<and> ResponseHandler_extract_numeric_price ''1234,567'' = 1234567 / 1000
   \<and> \<not> long_prefix_three_digits (keep_numeric ''USD 1,234'')
   \<and> ResponseHandler_extract_numeric_price ''USD 1,234'' = spec_normalize_amount ''USD 1,234''
   \<and> spec_normalize_amount ''USD 1,234'' = 1234
   \<and> PriorityAPIClient_extract_numeric_price ''USD 1,234'' = 1234 / 1000
   \<and> PriorityAPIClient_extract_numeric_price ''1.234.567'' = spec_normalize_amount ''1.234.567''
   \<and> spec_normalize_amount ''1.234.567'' = 1234567
   \<and> numeric_body ''7.157,16''
   \<and> clean_number ''USD 7.157,16'' = Num (715716 / 100)"
proof -
  have a: "long_prefix_three_digits (keep_numeric ''1234,567'')"
    by (simp add: spec_eval keep_numeric_def is_digit_def)
  have a': "float_or_zero (as_decimal_separator (CHR '','') (keep_numeric ''1234,567''))
              = 1234567 / 1000"
    by (simp add: spec_eval price_eval)
  have b: "\<not> long_prefix_three_digits (keep_numeric ''USD 1,234'')"
    by (simp add: spec_eval keep_numeric_def is_digit_def)
  have b': "spec_normalize_amount ''USD 1,234'' = 1234"
    by (simp add: spec_eval price_eval)
  have c: "CHR '','' \<in> set (keep_numeric ''USD 1,234'')
           \<and> CHR ''.'' \<notin> set (keep_numeric ''USD 1,234'')"
    by (simp add: keep_numeric_def is_digit_def)
  have c': "float_or_zero (as_decimal_separator (CHR '','') (keep_numeric ''USD 1,234''))
              = 1234 / 1000"
    by (simp add: spec_eval price_eval)
  have d: "CHR '','' \<notin> set (keep_numeric ''1.234.567'')"
    by (simp add: keep_numeric_def is_digit_def)
  have d': "spec_normalize_amount ''1.234.567'' = 1234567"
    by (simp add: spec_eval price_eval)
  have e: "numeric_body ''7.157,16''" by (simp add: numeric_body_def is_digit_def)
  have e': "(case decimal_unsigned (european_comma ''7.157,16'') of
               Inr d \<Rightarrow> d | Inl e \<Rightarrow> Num 0) = Num (715716 / 100)"
    by (simp add: decimal_eval)
  show ?thesis
    using separator_resolution[of "''1234,567''"] separator_resolution[of "''USD 1,234''"]
      separator_resolution[of "''1.234.567''"] separator_resolution[of "''7.157,16''"]
      a a' b b' c c' d d' e e'
    by simp
qed

theorem separator_rule_counterexample:
  "ResponseHandler_extract_numeric_price ''1234,567'' \<noteq> spec_normalize_amount ''1234,567''
   \<and> PriorityAPIClient_extract_numeric_price ''1,234'' \<noteq> spec_normalize_amount ''1,234''
   \<and> ResponseHandler_extract_numeric_price ''1234,567'' = 1234567 / 1000
   \<and> spec_normalize_amount ''1234,567'' = 1234567
   \<and> PriorityAPIClient_extract_numeric_price ''1,234'' = 1234 / 1000
   \<and> spec_normalize_amount ''1,234'' = 1234
   \<and> clean_number ''USD 1,234.56'' = Num (123456 / 100000)"
proof -
  have "ResponseHandler_extract_numeric_price ''1234,567'' = 1234567 / 1000"
    by (simp add: price_eval)
  moreover have "spec_normalize_amount ''1234,567'' = 1234567"
    by (simp add: spec_eval price_eval)
  moreover have "PriorityAPIClient_extract_numeric_price ''1,234'' = 1234 / 1000"
    by (simp add: price_eval)
  moreover have "spec_normalize_amount ''1,234'' = 1234"
    by (simp add: spec_eval price_eval)
  moreover have "clean_number ''USD 1,234.56'' = Num (123456 / 100000)"
    by (simp add: decimal_eval)
  ultimately show ?thesis by simp
qed

section \<open>Properties of the item matcher\<close>

lemma py_dict_None: "py_dict key xs k = None \<longleftrightarrow> k \<notin> key ` set xs"
  by (simp add: py_dict_def map_of_eq_None_iff image_image)

lemma item_detail_partname: "ir_partname (item_detail m p) = priority_partname p"
  by (simp add: item_detail_def Let_def split: option.splits)

lemma item_detail_passed:
  "validation_passed (item_detail m p)
     = (quantity_match (item_detail m p) \<and> item_price_match (item_detail m p))"
  by (simp add: item_detail_def Let_def split: option.splits)

lemma item_detail_missing:
  "m (priority_partname p) = None \<Longrightarrow> \<not> validation_passed (item_detail m p)"
  by (simp add: item_detail_def Let_def)

lemma check_priority_item_fields:
  "missing_in_ai (check_priority_item m r p)
     = missing_in_ai r @ (if m (priority_partname p) = None then [priority_partname p] else [])"
  "all_items_valid (check_priority_item m r p)
     = (all_items_valid r \<and> validation_passed (item_detail m p))"
  "item_details (check_priority_item m r p) = item_details r @ [item_detail m p]"
  "missing_in_priority (check_priority_item m r p) = missing_in_priority r"
  "item_count_match (check_priority_item m r p) = item_count_match r"
  using item_detail_missing[of m p] item_detail_passed[of m p]
  by (auto simp: check_priority_item_def Let_def item_detail_partname)

lemma check_ai_item_fields:
  "missing_in_priority (check_ai_item m r a)
     = missing_in_priority r @ (if m (ai_product_code a) = None then [ai_product_code a] else [])"
  "all_items_valid (check_ai_item m r a)
     = (all_items_valid r \<and> m (ai_product_code a) \<noteq> None)"
  "item_details (check_ai_item m r a) = item_details r"
  "missing_in_ai (check_ai_item m r a) = missing_in_ai r"
  "item_count_match (check_ai_item m r a) = item_count_match r"
  by (auto simp: check_ai_item_def Let_def)

lemma priority_loop:
  "missing_in_ai (foldl (check_priority_item m) r ps)
     = missing_in_ai r @ map priority_partname (filter (\<lambda>p. m (priority_partname p) = None) ps)"
  "all_items_valid (foldl (check_priority_item m) r ps)
     = (all_items_valid r \<and> (\<forall>p\<in>set ps. validation_passed (item_detail m p)))"
  "item_details (foldl (check_priority_item m) r ps) = item_details r @ map (item_detail m) ps"
  "missing_in_priority (foldl (check_priority_item m) r ps) = missing_in_priority r"
  "item_count_match (foldl (check_priority_item m) r ps) = item_count_match r"
  by (induction ps arbitrary: r) (auto simp: check_priority_item_fields)

lemma ai_loop:
  "missing_in_priority (foldl (check_ai_item m) r as)
     = missing_in_priority r @ map ai_product_code (filter (\<lambda>a. m (ai_product_code a) = None) as)"
  "all_items_valid (foldl (check_ai_item m) r as)
     = (all_items_valid r \<and> (\<forall>a\<in>set as. m (ai_product_code a) \<noteq> None))"
  "item_details (foldl (check_ai_item m) r as) = item_details r"
  "missing_in_ai (foldl (check_ai_item m) r as) = missing_in_ai r"
  "item_count_match (foldl (check_ai_item m) r as) = item_count_match r"
  by (induction as arbitrary: r) (auto simp: check_ai_item_fields)

lemma validate_items_detail_fields:
  "missing_in_ai (validate_items_detail ps as)
     = map priority_partname
         (filter (\<lambda>p. priority_partname p \<notin> ai_product_code ` set as) ps)"
  "missing_in_priority (validate_items_detail ps as)
     = map ai_product_code
         (filter (\<lambda>a. ai_product_code a \<notin> priority_partname ` set ps) as)"
  "item_details (validate_items_detail ps as) = map (item_detail (py_dict ai_product_code as)) ps"
  "all_items_valid (validate_items_detail ps as)
     = ((\<forall>p\<in>set ps. validation_passed (item_detail (py_dict ai_product_code as) p))
        \<and> (\<forall>a\<in>set as. ai_product_code a \<in> priority_partname ` set ps))"
  "item_count_match (validate_items_detail ps as) = (length ps = length as)"
  by (simp_all add: validate_items_detail_def Let_def ai_loop priority_loop py_dict_None)

text \<open>
  C5. In the result of \<open>validate_items_detail\<close>, the codes reported as missing in the
  extraction are exactly the authoritative codes with no extracted counterpart, and the
  codes reported as missing in Priority are exactly the extracted codes with no authoritative
  counterpart: a code present on one side only is never dropped. \<open>all_items_valid\<close> holds
  iff every authoritative item has a counterpart, every quantity and price match flag is
  true and both missing lists are empty. \<open>item_count_match\<close> holds iff the two input
  lists have the same length. There is one entry of \<open>item_details\<close> per authoritative item.
\<close>

theorem item_matcher_result:
  "set (missing_in_ai (validate_items_detail ps as))
     = priority_partname ` set ps - ai_product_code ` set as
   \<and> set (missing_in_priority (validate_items_detail ps as))
     = ai_product_code ` set as - priority_partname ` set ps
   \<and> (all_items_valid (validate_items_detail ps as) \<longleftrightarrow>
        (\<forall>p\<in>set ps. priority_partname p \<in> ai_product_code ` set as)
        \<and> (\<forall>d\<in>set (item_details (validate_items_detail ps as)).
              quantity_match d \<and> item_price_match d)
        \<and> missing_in_ai (validate_items_detail ps as) = []
        \<and> missing_in_priority (validate_items_detail ps as) = [])
   \<and> (item_count_match (validate_items_detail ps as) \<longleftrightarrow> length ps = length as)
   \<and> length (item_details (validate_items_detail ps as)) = length ps"
proof -
  let ?m = "py_dict ai_product_code as"
  note f = validate_items_detail_fields[of ps as]
  have m1: "set (missing_in_ai (validate_items_detail ps as))
              = priority_partname ` set ps - ai_product_code ` set as"
    unfolding f(1) by auto
  have m2: "set (missing_in_priority (validate_items_detail ps as))
              = ai_product_code ` set as - priority_partname ` set ps"
    unfolding f(2) by auto
  have e1: "missing_in_ai (validate_items_detail ps as) = []
              \<longleftrightarrow> (\<forall>p\<in>set ps. priority_partname p \<in> ai_product_code ` set as)"
    unfolding f(1) by (auto simp: filter_empty_conv)
  have e2: "missing_in_priority (validate_items_detail ps as) = []
              \<longleftrightarrow> (\<forall>a\<in>set as. ai_product_code a \<in> priority_partname ` set ps)"
    unfolding f(2) by (auto simp: filter_empty_conv)
  have d: "(\<forall>d\<in>set (item_details (validate_items_detail ps as)).
              quantity_match d \<and> item_price_match d)
            \<longleftrightarrow> (\<forall>p\<in>set ps. validation_passed (item_detail ?m p))"
    unfolding f(3) by (simp add: item_detail_passed)
  have imp: "(\<forall>p\<in>set ps. validation_passed (item_detail ?m p))
               \<Longrightarrow> (\<forall>p\<in>set ps. priority_partname p \<in> ai_product_code ` set as)"
  proof
    fix p assume a: "\<forall>p\<in>set ps. validation_passed (item_detail ?m p)" and p: "p \<in> set ps"
    then have "?m (priority_partname p) \<noteq> None" using item_detail_missing[of ?m p] by blast
    then show "priority_partname p \<in> ai_product_code ` set as" by (simp add: py_dict_None)
  qed
  have v: "all_items_valid (validate_items_detail ps as) \<longleftrightarrow>
        (\<forall>p\<in>set ps. priority_partname p \<in> ai_product_code ` set as)
        \<and> (\<forall>d\<in>set (item_details (validate_items_detail ps as)).
              quantity_match d \<and> item_price_match d)
        \<and> missing_in_ai (validate_items_detail ps as) = []
        \<and> missing_in_priority (validate_items_detail ps as) = []"
    unfolding d e1 e2 f(4) using imp by blast
  show ?thesis using m1 m2 v f(5) by (simp add: f(3))
qed

lemmas item_eval = validate_items_detail_fields item_detail_def py_dict_def
  priority_partname_def ai_product_code_def get_or_def example_priority_item_def
  example_ai_item_def extract_numeric_quantity_def approval_price_match_def

theorem item_matcher_result_witness:
  "set (missing_in_ai (validate_items_detail example_priority_items example_ai_items))
     = {''B2''}
   \<and> set (missing_in_priority (validate_items_detail example_priority_items example_ai_items))
     = {''C3''}
   \<and> \<not> all_items_valid (validate_items_detail example_priority_items example_ai_items)
   \<and> item_count_match (validate_items_detail example_priority_items example_ai_items)
   \<and> all_items_valid (validate_items_detail
         [example_priority_item ''A1'' 1 (38304 / 100)]
         [example_ai_item ''A1'' ''Column'' ''1 EA'' ''USD 383.04''])"
proof -
  let ?big = "validate_items_detail example_priority_items example_ai_items"
  let ?small = "validate_items_detail [example_priority_item ''A1'' 1 (38304 / 100)]
                  [example_ai_item ''A1'' ''Column'' ''1 EA'' ''USD 383.04'']"
  note big = item_matcher_result[of example_priority_items example_ai_items]
  note small = item_matcher_result[of "[example_priority_item ''A1'' 1 (38304 / 100)]"
                 "[example_ai_item ''A1'' ''Column'' ''1 EA'' ''USD 383.04'']"]
  have a: "priority_partname ` set example_priority_items
             - ai_product_code ` set example_ai_items = {''B2''}"
    by (auto simp: priority_partname_def ai_product_code_def get_or_def
        example_priority_item_def example_ai_item_def example_priority_items_def
        example_ai_items_def)
  have b: "ai_product_code ` set example_ai_items
             - priority_partname ` set example_priority_items = {''C3''}"
    by (auto simp: priority_partname_def ai_product_code_def get_or_def
        example_priority_item_def example_ai_item_def example_priority_items_def
        example_ai_items_def)
  have w1: "set (missing_in_ai ?big) = {''B2''}"
    by (rule trans[OF big[THEN conjunct1] a])
  have w2: "set (missing_in_priority ?big) = {''C3''}"
    by (rule trans[OF big[THEN conjunct2, THEN conjunct1] b])
  note bv = big[THEN conjunct2, THEN conjunct2, THEN conjunct1]
  note bc = big[THEN conjunct2, THEN conjunct2, THEN conjunct2, THEN conjunct1]
  note sv = small[THEN conjunct2, THEN conjunct2, THEN conjunct1]
  have w3: "\<not> all_items_valid ?big"
  proof
    assume "all_items_valid ?big"
    then have "missing_in_ai ?big = []" using bv by simp
    then show False using w1 by simp
  qed
  have "length example_priority_items = length example_ai_items"
    by (simp add: example_priority_items_def example_ai_items_def)
  then have w4: "item_count_match ?big" using bc by simp
  have c: "\<forall>d\<in>set (item_details ?small). quantity_match d \<and> item_price_match d"
    by (simp add: item_eval price_eval)
  have d: "missing_in_ai ?small = []" "missing_in_priority ?small = []"
    by (simp_all add: item_eval)
  have e: "\<forall>p\<in>set [example_priority_item ''A1'' 1 (38304 / 100)]. priority_partname p
             \<in> ai_product_code ` set [example_ai_item ''A1'' ''Column'' ''1 EA'' ''USD 383.04'']"
    by (simp add: item_eval)
  have w5: "all_items_valid ?small" using c d e by (simp only: sv simp_thms)
  show ?thesis using w1 w2 w3 w4 w5 by (intro conjI)
qed

section \<open>Properties of the shipping reconciler\<close>

lemma extract_ai_shipping_info_Some:
  "extract_ai_shipping_info ais \<noteq> None \<longleftrightarrow>
     (\<exists>item\<in>set ais. \<exists>keyword\<in>set shipping_keywords. py_in keyword (shipping_item_text item))"
proof (induction ais)
  case Nil
  show ?case by simp
next
  case (Cons item rest)
  show ?case
  proof (cases "find (\<lambda>keyword. py_in keyword (shipping_item_text item)) shipping_keywords")
    case None
    then have "\<not> (\<exists>keyword\<in>set shipping_keywords. py_in keyword (shipping_item_text item))"
      by (simp add: find_None_iff)
    then show ?thesis using None Cons.IH by (simp add: Let_def)
  next
    case (Some k)
    then have "\<exists>keyword\<in>set shipping_keywords. py_in keyword (shipping_item_text item)"
      by (auto simp: find_Some_iff)
    then show ?thesis using Some by (simp add: Let_def)
  qed
qed

lemma has_priority_shipping:
  "length (find_priority_shipping_items ps) > 0 \<longleftrightarrow> authoritative_shipping_present ps"
  by (auto simp: find_priority_shipping_items_def authoritative_shipping_present_def
      filter_empty_conv)

lemma has_ai_shipping:
  "(case hint of Some info \<Rightarrow> Some info | None \<Rightarrow> extract_ai_shipping_info ais) \<noteq> None
     \<longleftrightarrow> extracted_shipping_present ais hint"
  using extract_ai_shipping_info_Some[of ais]
  by (cases hint) (auto simp: extracted_shipping_present_def)




lemmas shipping_eval = authoritative_shipping_present_def extracted_shipping_present_def
  shipping_keywords_def shipping_item_text_def py_strip_def py_lower_def lower_char_def
  is_space_def priority_partname_def get_or_def example_priority_item_def example_ai_item_def
  example_shipping_priority_items_def example_plain_priority_items_def
  example_shipping_ai_items_def example_plain_ai_items_def extracted_shipping_total_def
  validate_shipping_charges_def find_priority_shipping_items_def str_or_def Let_def


section \<open>Properties of the approval decision\<close>

lemma update_final_status_written:
  "get_or (validation_attempted pv) False \<Longrightarrow>
     status_written (update_final_status patch pv) = Some (fst (decide_final_status pv))"
  by (simp add: update_final_status_def split: prod.splits http_outcome.splits)

text \<open>
  C1. When a total price comparison was attempted, the status \<open>update_final_status\<close>
  writes is \<open>Approved\<close> iff all five criteria hold: total price match, all items valid,
  item count match, no item missing in the extraction, and shipping validation passed. If
  any of them fails the status written is \<open>SentBackForReview\<close>. When the remote system
  accepts the request, the status recorded as final is the one written.
\<close>
theorem approval_iff_all_criteria:
  assumes "get_or (validation_attempted pv) False"
  shows "(status_written (update_final_status patch pv) = Some Approved \<longleftrightarrow>
            criterion_price_match pv \<and> criterion_all_items_valid pv
            \<and> criterion_item_count_match pv \<and> criterion_no_missing_items pv
            \<and> criterion_shipping_valid pv)
       \<and> (\<not> (criterion_price_match pv \<and> criterion_all_items_valid pv
            \<and> criterion_item_count_match pv \<and> criterion_no_missing_items pv
            \<and> criterion_shipping_valid pv)
           \<longrightarrow> status_written (update_final_status patch pv) = Some SentBackForReview)
       \<and> (\<forall>code. patch (fst (decide_final_status pv)) = Response code \<and> (code = 200 \<or> code = 204)
           \<longrightarrow> map_option final_status (final_status_update
                  (validation_after (update_final_status patch pv)))
               = Some (status_written (update_final_status patch pv)))"
proof -
  note w = update_final_status_written[OF assms, of patch]
  have a: "status_written (update_final_status patch pv) = Some Approved \<longleftrightarrow>
            criterion_price_match pv \<and> criterion_all_items_valid pv
            \<and> criterion_item_count_match pv \<and> criterion_no_missing_items pv
            \<and> criterion_shipping_valid pv"
    unfolding w by (auto simp: decide_final_status_def)
  have b: "\<not> (criterion_price_match pv \<and> criterion_all_items_valid pv
            \<and> criterion_item_count_match pv \<and> criterion_no_missing_items pv
            \<and> criterion_shipping_valid pv)
           \<longrightarrow> status_written (update_final_status patch pv) = Some SentBackForReview"
    unfolding w by (auto simp: decide_final_status_def)
  have c: "\<forall>code. patch (fst (decide_final_status pv)) = Response code \<and> (code = 200 \<or> code = 204)
           \<longrightarrow> map_option final_status (final_status_update
                  (validation_after (update_final_status patch pv)))
               = Some (status_written (update_final_status patch pv))"
    using assms by (auto simp: update_final_status_def split: prod.splits)
  show ?thesis using a b c by blast
qed

lemmas approval_eval = order_validation_def store_validations_def total_price_validation_def
  criterion_price_match_def criterion_all_items_valid_def criterion_item_count_match_def
  criterion_shipping_valid_def criterion_no_missing_items_def missing_in_ai_count_def
  example_matching_validation_def example_shipping_failure_def example_without_total_def
  example_remote_accepts_def get_or_def Let_def

theorem approval_iff_all_criteria_witness:
  "status_written (update_final_status example_remote_accepts example_matching_validation)
     = Some Approved
   \<and> status_written (update_final_status example_remote_accepts example_shipping_failure)
     = Some SentBackForReview
   \<and> decide_final_status example_shipping_failure
     = (SentBackForReview, ValidationFailed [ShippingFailed])"
proof -
  have a1: "get_or (validation_attempted example_matching_validation) False"
    by (simp add: approval_eval get_or_def)
  have a2: "get_or (validation_attempted example_shipping_failure) False"
    by (simp add: approval_eval get_or_def)
  have f: "filter (\<lambda>item. \<not> starts_with ''SH'' (priority_partname item))
             example_plain_priority_items = example_plain_priority_items"
          "filter (\<lambda>item. \<not> starts_with ''SH'' (priority_partname item))
             example_shipping_priority_items = example_plain_priority_items"
    by (simp_all add: example_plain_priority_items_def example_shipping_priority_items_def
        priority_partname_def get_or_def example_priority_item_def)
  have iv: "all_items_valid (validate_items_detail example_plain_priority_items
              example_plain_ai_items)"
           "item_count_match (validate_items_detail example_plain_priority_items
              example_plain_ai_items)"
           "missing_in_ai (validate_items_detail example_plain_priority_items
              example_plain_ai_items) = []"
    by (simp_all add: item_eval price_eval example_plain_priority_items_def
        example_plain_ai_items_def)
  have sv1: "shipping_validation_passed (validate_shipping_charges example_plain_priority_items
              example_plain_ai_items None)"
    by (simp add: shipping_eval)
  have sv2: "\<not> shipping_validation_passed (validate_shipping_charges
              example_shipping_priority_items example_plain_ai_items None)"
    by (simp add: shipping_eval)
  have p1: "criterion_price_match example_matching_validation"
    by (simp add: approval_eval get_or_def price_eval)
  have p2: "criterion_price_match example_shipping_failure"
    by (simp add: approval_eval get_or_def price_eval)
  have c1: "criterion_all_items_valid example_matching_validation
            \<and> criterion_item_count_match example_matching_validation
            \<and> criterion_no_missing_items example_matching_validation
            \<and> criterion_shipping_valid example_matching_validation"
    using iv sv1 by (simp add: approval_eval f)
  have c2: "criterion_all_items_valid example_shipping_failure
            \<and> criterion_item_count_match example_shipping_failure
            \<and> criterion_no_missing_items example_shipping_failure
            \<and> \<not> criterion_shipping_valid example_shipping_failure"
    using iv sv2 by (simp add: approval_eval f)
  have w1: "status_written (update_final_status example_remote_accepts
              example_matching_validation) = Some Approved"
    using approval_iff_all_criteria[OF a1, of example_remote_accepts] p1 c1 by simp
  have w2: "status_written (update_final_status example_remote_accepts
              example_shipping_failure) = Some SentBackForReview"
    using approval_iff_all_criteria[OF a2, of example_remote_accepts] c2 by simp
  have w3: "decide_final_status example_shipping_failure
              = (SentBackForReview, ValidationFailed [ShippingFailed])"
    using p2 c2 by (simp add: decide_final_status_def)
  show ?thesis using w1 w2 w3 by simp
qed


text \<open>
  C7. When no total price comparison was attempted, \<open>update_final_status\<close> sends no
  status at all, leaves the validation result as it is and returns \<open>True\<close>: neither
  terminal status is written. The result that \<open>get_order_data\<close> builds when the caller
  passes no extracted total is of this kind.
\<close>
theorem no_decision_without_total:
  "(\<not> get_or (validation_attempted pv) False \<longrightarrow>
      status_written (update_final_status patch pv) = None
      \<and> validation_after (update_final_status patch pv) = pv
      \<and> returned (update_final_status patch pv))
   \<and> \<not> get_or (validation_attempted (store_validations (total_price_validation totprice None) iv sv)) False"
  by (simp add: update_final_status_def store_validations_def total_price_validation_def get_or_def Let_def)

theorem no_decision_without_total_witness:
  "status_written (update_final_status example_remote_accepts example_without_total) = None
   \<and> validation_after (update_final_status example_remote_accepts example_without_total)
       = example_without_total
   \<and> returned (update_final_status example_remote_accepts example_without_total)"
proof -
  have "\<not> get_or (validation_attempted example_without_total) False"
    by (simp add: approval_eval get_or_def)
  then show ?thesis
    using no_decision_without_total[of example_without_total example_remote_accepts]
    by simp
qed

section \<open>Properties of the delivery date calculator\<close>

lemma weekday_range: "0 \<le> weekday n \<and> weekday n \<le> 6"
  by (simp add: weekday_def)

lemma thursday_of_week:
  "weekday (c + (3 - weekday c)) = 3"
  "week_start (c + (3 - weekday c)) = week_start c"
  "weekday c = 3 \<Longrightarrow> c + (3 - weekday c) = c"
proof -
  show a: "weekday (c + (3 - weekday c)) = 3" unfolding weekday_def by presburger
  show "week_start (c + (3 - weekday c)) = week_start c"
    unfolding week_start_def a by simp
  show "weekday c = 3 \<Longrightarrow> c + (3 - weekday c) = c" by simp
qed

lemma thursday_in_range:
  assumes "1 \<le> c"
  shows "1 \<le> c + (3 - weekday c)" "c + (3 - weekday c) \<le> c + 3"
proof -
  have "(c + 6) mod 7 \<le> c - 1" using assms by presburger
  then show "1 \<le> c + (3 - weekday c)" by (simp add: weekday_def)
  show "c + (3 - weekday c) \<le> c + 3" using weekday_range[of c] by simp
qed

lemma friday_before_saturday:
  assumes "weekday c = 5" "1 \<le> c"
  shows "weekday (c - 1) = 4" "1 \<le> c - 1"
proof -
  show "weekday (c - 1) = 4" using assms(1) unfolding weekday_def by presburger
  show "1 \<le> c - 1" using assms unfolding weekday_def by presburger
qed

lemma days_before_year_bounds:
  assumes "1 \<le> y" "y \<le> 9999"
  shows "0 \<le> days_before_year y"
    and "days_before_year y + 365 + (if is_leap y then 1 else 0) \<le> MAXORDINAL"
proof -
  define z where "z = y - 1"
  have z: "0 \<le> z" "z \<le> 9998" using assms by (simp_all add: z_def)
  have q4: "4 * (z div 4) \<le> z" using z(1) by presburger
  have q100: "100 * (z div 100) \<le> z" "0 \<le> z div 100" using z(1) by presburger+
  have q400: "400 * (z div 400) \<le> z" "0 \<le> z div 400" using z(1) by presburger+
  have q4': "0 \<le> z div 4" using z(1) by presburger
  have d: "days_before_year y = z * 365 + z div 4 - z div 100 + z div 400"
    by (simp add: days_before_year_def z_def Let_def)
  show "0 \<le> days_before_year y" unfolding d using z q4' q100 q400 by linarith
  show "days_before_year y + 365 + (if is_leap y then 1 else 0) \<le> MAXORDINAL"
  proof (cases "y = 9999")
    case True
    then show ?thesis by (simp add: days_before_year_def is_leap_def MAXORDINAL_def)
  next
    case False
    then have "z \<le> 9997" using assms by (simp add: z_def)
    then have "days_before_year y + 366 \<le> 3652059"
      unfolding d using q4 q100 q400 by linarith
    then show ?thesis by (simp add: MAXORDINAL_def)
  qed
qed

lemma month_cases:
  assumes "1 \<le> (m::int)" "m \<le> 12"
  shows "m \<in> {1, 2, 3, 4, 5, 6, 7, 8, 9, 10, 11, 12}"
proof -
  have "m = 1 \<or> m = 2 \<or> m = 3 \<or> m = 4 \<or> m = 5 \<or> m = 6 \<or> m = 7 \<or> m = 8 \<or> m = 9
        \<or> m = 10 \<or> m = 11 \<or> m = 12" using assms by arith
  then show ?thesis by simp
qed

lemma day_of_year_bounds:
  assumes "1 \<le> m" "m \<le> 12" "1 \<le> d" "d \<le> days_in_month y m"
  shows "1 \<le> days_before_month y m + d"
    and "days_before_month y m + d \<le> 365 + (if is_leap y then 1 else 0)"
proof -
  have m: "m \<in> {1, 2, 3, 4, 5, 6, 7, 8, 9, 10, 11, 12}" using month_cases[OF assms(1,2)] .
  show "1 \<le> days_before_month y m + d"
    using m assms(3) by (auto simp: days_before_month_def DAYS_BEFORE_MONTH_def)
  show "days_before_month y m + d \<le> 365 + (if is_leap y then 1 else 0)"
    using m assms(4)
    by (auto simp: days_before_month_def days_in_month_def DAYS_BEFORE_MONTH_def
        DAYS_IN_MONTH_def)
qed

lemma py_datetime_range:
  assumes "py_datetime y m d = Inr n"
  shows "1 \<le> n \<and> n \<le> MAXORDINAL"
proof -
  have v: "1 \<le> y" "y \<le> 9999" "1 \<le> m" "m \<le> 12" "1 \<le> d" "d \<le> days_in_month y m"
    and n: "n = ymd2ord y m d"
    using assms by (auto simp: py_datetime_def split: if_splits)
  note a = days_before_year_bounds[OF v(1,2)]
  note b = day_of_year_bounds[OF v(3,4,5,6)]
  show ?thesis using a b unfolding n ymd2ord_def by linarith
qed

lemma strptime_dmy_range:
  assumes "strptime_dmy s = Inr n"
  shows "1 \<le> n \<and> n \<le> MAXORDINAL"
proof -
  obtain y m d where "py_datetime y m d = Inr n"
    using assms by (auto simp: strptime_dmy_def split: list.splits if_splits)
  then show ?thesis by (rule py_datetime_range)
qed

lemma parse_delivery_date_range:
  assumes "parse_delivery_date s = Inr n"
  shows "1 \<le> n \<and> n \<le> MAXORDINAL"
proof (cases "CHR ''.'' \<in> set s")
  case True
  then obtain y m d where "py_datetime y m d = Inr n"
    using assms by (auto simp: parse_delivery_date_def Let_def split: if_splits sum.splits)
  then show ?thesis by (rule py_datetime_range)
next
  case False
  then show ?thesis using assms strptime_dmy_range by (simp add: parse_delivery_date_def)
qed

lemma priority_date_of_value:
  assumes "7 \<le> d" "d \<le> MAXORDINAL"
  shows "priority_date_of d addr =
           Inr (if special_address addr then d - 6 + (3 - weekday (d - 6))
                else if weekday (d - 6) = 5 then d - 6 - 1 else d - 6)"
proof -
  have c: "1 \<le> d - 6" "d - 6 \<le> MAXORDINAL" using assms by simp_all
  have s: "add_days d (- 6) = Inr (d - 6)" using c by (simp add: add_days_def)
  have "d - 6 + (3 - weekday (d - 6)) \<le> MAXORDINAL"
    using thursday_in_range(2)[OF c(1)] assms(2) assms(1) by linarith
  then have t: "add_days (d - 6) (3 - weekday (d - 6)) = Inr (d - 6 + (3 - weekday (d - 6)))"
    using thursday_in_range(1)[OF c(1)] by (simp add: add_days_def)
  have f: "weekday (d - 6) = 5 \<Longrightarrow> add_days (d - 6) (- 1) = Inr (d - 6 - 1)"
    using friday_before_saturday(2)[of "d - 6"] c by (simp add: add_days_def)
  show ?thesis using s t f by (simp add: priority_date_of_def Let_def)
qed

lemma month_and_day_correct:
  assumes "0 \<le> r" "r \<le> 364" "month_and_day r leap = (m, dd)"
  shows "1 \<le> m \<and> m \<le> 12 \<and> 1 \<le> dd
       \<and> dd \<le> (if m = 2 \<and> leap then 29 else DAYS_IN_MONTH ! nat m)
       \<and> DAYS_BEFORE_MONTH ! nat m + (if m > 2 \<and> leap then 1 else 0) + dd = r + 1"
proof -
  define k where "k = (r + 50) div 32"
  have kb: "32 * k \<le> r + 50" "r + 50 < 32 * k + 32" unfolding k_def by presburger+
  have "1 \<le> k" "k \<le> 12" using kb assms(1,2) by linarith+
  then have kc: "k = 1 \<or> k = 2 \<or> k = 3 \<or> k = 4 \<or> k = 5 \<or> k = 6 \<or> k = 7 \<or> k = 8 \<or> k = 9
        \<or> k = 10 \<or> k = 11 \<or> k = 12" by arith
  have md: "month_and_day r leap =
     (if DAYS_BEFORE_MONTH ! nat k + (if k > 2 \<and> leap then 1 else 0) > r then
           (k - 1, r - (DAYS_BEFORE_MONTH ! nat k + (if k > 2 \<and> leap then 1 else 0)
                         - (DAYS_IN_MONTH ! nat (k - 1)
                               + (if k - 1 = 2 \<and> leap then 1 else 0))) + 1)
         else (k, r - (DAYS_BEFORE_MONTH ! nat k + (if k > 2 \<and> leap then 1 else 0)) + 1))"
    by (simp only: month_and_day_def Let_def k_def)
  show ?thesis
    using kc kb assms unfolding md
    by (elim disjE) (auto simp: DAYS_BEFORE_MONTH_def DAYS_IN_MONTH_def split: if_splits)
qed

lemma int_div_small:
  fixes k q x :: int
  assumes "0 \<le> x" "x < k"
  shows "(k * q + x) div k = q" and "(k * q + x) mod k = x"
proof -
  have k: "k \<noteq> 0" using assms by linarith
  have "(x + k * q) div k = q + x div k" using k by (rule div_mult_self2)
  then show "(k * q + x) div k = q"
    using assms by (simp add: add.commute div_pos_pos_trivial)
  have "(x + k * q) mod k = x mod k" by (rule mod_mult_self2)
  then show "(k * q + x) mod k = x"
    using assms by (simp add: add.commute mod_pos_pos_trivial)
qed

lemma year_arith_common:
  fixes a b c e :: int
  assumes "0 \<le> e" "e \<le> 3" "0 \<le> c" "c \<le> 24" "0 \<le> b" "b \<le> 3"
  shows "(400 * a + 100 * b + 4 * c + e) div 4 = 100 * a + 25 * b + c"
    and "(400 * a + 100 * b + 4 * c + e) div 100 = 4 * a + b"
    and "(400 * a + 100 * b + 4 * c + e) div 400 = a"
    and "is_leap (400 * a + 100 * b + 4 * c + e + 1) \<longleftrightarrow> e = 3 \<and> (c \<noteq> 24 \<or> b = 3)"
proof -
  let ?Y = "400 * a + 100 * b + 4 * c + e"
  have e4: "?Y = 4 * (100 * a + 25 * b + c) + e" by simp
  have e100: "?Y = 100 * (4 * a + b) + (4 * c + e)" by simp
  have e400: "?Y = 400 * a + (100 * b + 4 * c + e)" by simp
  have b100: "0 \<le> 4 * c + e" "4 * c + e < 100" using assms by linarith+
  have b400: "0 \<le> 100 * b + 4 * c + e" "100 * b + 4 * c + e < 400" using assms by linarith+
  show "?Y div 4 = 100 * a + 25 * b + c"
    unfolding e4 using assms(1,2) by (intro int_div_small(1)) linarith+
  show "?Y div 100 = 4 * a + b"
    unfolding e100 using b100 by (intro int_div_small(1))
  show "?Y div 400 = a"
    unfolding e400 using b400 by (intro int_div_small(1))
  have f4: "?Y + 1 = 4 * (100 * a + 25 * b + c) + (e + 1)" by simp
  have m4: "(?Y + 1) mod 4 = 0 \<longleftrightarrow> e = 3"
  proof (cases "e = 3")
    case True
    have eq: "?Y + 1 = 4 * (100 * a + 25 * b + c + 1) + 0" using True by simp
    have "(?Y + 1) mod 4 = 0" by (subst eq, rule int_div_small(2)) simp_all
    then show ?thesis using True by simp
  next
    case False
    then have "0 \<le> e + 1" "e + 1 < 4" using assms by linarith+
    then have "(?Y + 1) mod 4 = e + 1" unfolding f4 by (intro int_div_small(2))
    then show ?thesis using False assms by simp
  qed
  have m100: "(?Y + 1) mod 100 = 0 \<longleftrightarrow> c = 24" if e: "e = 3"
  proof (cases "c = 24")
    case True
    have eq: "?Y + 1 = 100 * (4 * a + b + 1) + 0" using True e by simp
    have "(?Y + 1) mod 100 = 0" by (subst eq, rule int_div_small(2)) simp_all
    then show ?thesis using True by simp
  next
    case False
    have f: "?Y + 1 = 100 * (4 * a + b) + (4 * c + 4)" using e by simp
    have "0 \<le> 4 * c + 4" "4 * c + 4 < 100" using False assms by linarith+
    then have "(?Y + 1) mod 100 = 4 * c + 4" unfolding f by (intro int_div_small(2))
    then show ?thesis using False assms by simp
  qed
  have m400: "(?Y + 1) mod 400 = 0 \<longleftrightarrow> b = 3" if e: "e = 3" and c: "c = 24"
  proof (cases "b = 3")
    case True
    have eq: "?Y + 1 = 400 * (a + 1) + 0" using True e c by simp
    have "(?Y + 1) mod 400 = 0" by (subst eq, rule int_div_small(2)) simp_all
    then show ?thesis using True by simp
  next
    case False
    have f: "?Y + 1 = 400 * a + (100 * b + 100)" using e c by simp
    have "0 \<le> 100 * b + 100" "100 * b + 100 < 400" using False assms by linarith+
    then have "(?Y + 1) mod 400 = 100 * b + 100" unfolding f by (intro int_div_small(2))
    then show ?thesis using False assms by simp
  qed
  show "is_leap (?Y + 1) \<longleftrightarrow> e = 3 \<and> (c \<noteq> 24 \<or> b = 3)"
  proof (cases "e = 3")
    case False
    then show ?thesis unfolding is_leap_def using m4 by simp
  next
    case e: True
    show ?thesis
    proof (cases "c = 24")
      case False
      then show ?thesis unfolding is_leap_def using m4 m100[OF e] e by simp
    next
      case True
      then show ?thesis unfolding is_leap_def using m4 m100[OF e] m400[OF e True] e by simp
    qed
  qed
qed

lemma ord2ymd_decompose:
  assumes "1 \<le> n"
  obtains a b c e r :: int where
    "n - 1 = 146097 * a + 36524 * b + 1461 * c + 365 * e + r"
    "0 \<le> a" "0 \<le> b" "0 \<le> c" "0 \<le> e" "0 \<le> r"
    "36524 * b + 1461 * c + 365 * e + r \<le> 146096"
    "1461 * c + 365 * e + r \<le> 36523"
    "365 * e + r \<le> 1460"
    "r \<le> 364"
    "ord2ymd n =
       (if e = 4 \<or> b = 4 then (400 * a + 100 * b + 4 * c + e, 12, 31)
        else (case month_and_day r (e = 3 \<and> (c \<noteq> 24 \<or> b = 3)) of
                (month, day) \<Rightarrow> (400 * a + 100 * b + 4 * c + e + 1, month, day)))"
proof -
  define n0 where "n0 = n - 1"
  define a where "a = n0 div 146097"
  define r400 where "r400 = n0 mod 146097"
  define b where "b = r400 div 36524"
  define r100 where "r100 = r400 mod 36524"
  define c where "c = r100 div 1461"
  define r4 where "r4 = r100 mod 1461"
  define e where "e = r4 div 365"
  define r where "r = r4 mod 365"
  have n0: "0 \<le> n0" using assms by (simp add: n0_def)
  have q1: "n0 = 146097 * a + r400" by (simp add: a_def r400_def)
  have q2: "r400 = 36524 * b + r100" by (simp add: b_def r100_def)
  have q3: "r100 = 1461 * c + r4" by (simp add: c_def r4_def)
  have q4: "r4 = 365 * e + r" by (simp add: e_def r_def)
  have b1: "0 \<le> r400" "r400 < 146097" by (simp_all add: r400_def)
  have b2: "0 \<le> r100" "r100 < 36524" by (simp_all add: r100_def)
  have b3: "0 \<le> r4" "r4 < 1461" by (simp_all add: r4_def)
  have b4: "0 \<le> r" "r < 365" by (simp_all add: r_def)
  have p: "0 \<le> a" "0 \<le> b" "0 \<le> c" "0 \<le> e"
    using n0 b1 b2 b3 by (simp_all add: a_def b_def c_def e_def pos_imp_zdiv_nonneg_iff)
  have o: "ord2ymd n =
       (if e = 4 \<or> b = 4 then (400 * a + 100 * b + 4 * c + e, 12, 31)
        else (case month_and_day r (e = 3 \<and> (c \<noteq> 24 \<or> b = 3)) of
                (month, day) \<Rightarrow> (400 * a + 100 * b + 4 * c + e + 1, month, day)))"
    by (simp add: ord2ymd_def Let_def n0_def a_def r400_def b_def r100_def c_def r4_def
        e_def r_def mult.commute)
  show ?thesis
  proof (rule that[of a b c e r])
    show "n - 1 = 146097 * a + 36524 * b + 1461 * c + 365 * e + r"
      using q1 q2 q3 q4 by (simp add: n0_def)
    show "36524 * b + 1461 * c + 365 * e + r \<le> 146096" using q2 q3 q4 b1 by linarith
    show "1461 * c + 365 * e + r \<le> 36523" using q3 q4 b2 by linarith
    show "365 * e + r \<le> 1460" using q4 b3 by linarith
    show "r \<le> 364" using b4 by linarith
  qed (use p b4 o in simp_all)
qed

text \<open>
  C6 (as amended). For a delivery date that parses to a calendar date on or after
  07.01.0001 and any delivery address, \<open>calculate_priority_date\<close> returns the formatted
  date \<open>t\<close> obtained as follows from the date six days earlier: if the address contains
  both \<open>12 Bet\<close> and \<open>St.\<close>, \<open>t\<close> is the Thursday of the same Monday-based week
  (unchanged if the earlier date is a Thursday); otherwise, if the earlier date is a
  Saturday, \<open>t\<close> is the Friday before it, and any other day is used unchanged. No
  error is reported.
\<close>

theorem priority_date_rule:
  assumes "parse_delivery_date s = Inr d" and "7 \<le> d"
  shows "\<exists>t. priority_date_of d addr = Inr t
           \<and> calculate_priority_date s addr = (strftime_dmy t, None)
           \<and> (special_address addr \<longrightarrow>
                weekday t = 3 \<and> week_start t = week_start (d - 6)
                \<and> (weekday (d - 6) = 3 \<longrightarrow> t = d - 6))
           \<and> (\<not> special_address addr \<and> weekday (d - 6) = 5 \<longrightarrow>
                t = d - 6 - 1 \<and> weekday t = 4)
           \<and> (\<not> special_address addr \<and> weekday (d - 6) \<noteq> 5 \<longrightarrow> t = d - 6)"
proof -
  let ?c = "d - 6"
  let ?t = "if special_address addr then ?c + (3 - weekday ?c)
            else if weekday ?c = 5 then ?c - 1 else ?c"
  have r: "d \<le> MAXORDINAL" using parse_delivery_date_range[OF assms(1)] by simp
  have p: "priority_date_of d addr = Inr ?t" using priority_date_of_value[OF assms(2) r] .
  have q: "calculate_priority_date s addr = (strftime_dmy ?t, None)"
    by (simp add: calculate_priority_date_def assms(1) p)
  have c1: "1 \<le> ?c" using assms(2) by simp
  have a: "special_address addr \<longrightarrow>
             weekday ?t = 3 \<and> week_start ?t = week_start ?c \<and> (weekday ?c = 3 \<longrightarrow> ?t = ?c)"
    using thursday_of_week[of ?c] by simp
  have b: "\<not> special_address addr \<and> weekday ?c = 5 \<longrightarrow> ?t = ?c - 1 \<and> weekday ?t = 4"
    using friday_before_saturday(1)[of ?c] c1 by simp
  have e: "\<not> special_address addr \<and> weekday ?c \<noteq> 5 \<longrightarrow> ?t = ?c" by simp
  show ?thesis using p q a b e by blast
qed

text \<open>
  C8 (as amended). For a date string that cannot be parsed as a calendar date,
  \<open>calculate_priority_date\<close> does not raise: it reports the error and returns the input
  with every period replaced by a slash, which is the input itself exactly when it contains
  no period.
\<close>

theorem malformed_date_fallback:
  assumes "parse_delivery_date s = Inl e"
  shows "calculate_priority_date s addr = (date_fallback s, Some e)
       \<and> date_fallback s = replace_char (CHR ''.'') (CHR ''/'') s
       \<and> (date_fallback s = s \<longleftrightarrow> CHR ''.'' \<notin> set s)"
proof -
  have a: "calculate_priority_date s addr = (date_fallback s, Some e)"
    using assms by (simp add: calculate_priority_date_def)
  have "CHR ''.'' \<notin> set s \<Longrightarrow> map (\<lambda>c. if c = CHR ''.'' then CHR ''/'' else c) s = s"
    by (rule map_idI) auto
  then have b: "date_fallback s = replace_char (CHR ''.'') (CHR ''/'') s"
    by (auto simp: date_fallback_def replace_char_def)
  have "CHR ''.'' \<in> set s \<Longrightarrow> replace_char (CHR ''.'') (CHR ''/'') s \<noteq> s"
  proof
    assume i: "CHR ''.'' \<in> set s" and eq: "replace_char (CHR ''.'') (CHR ''/'') s = s"
    have "CHR ''.'' \<notin> set (replace_char (CHR ''.'') (CHR ''/'') s)"
      by (auto simp: replace_char_def)
    then show False using i eq by simp
  qed
  then have c: "date_fallback s = s \<longleftrightarrow> CHR ''.'' \<notin> set s"
    by (auto simp: date_fallback_def)
  show ?thesis using a b c by simp
qed

lemmas date_eval = parse_delivery_date_def strptime_dmy_def strptime_day_field_def
  strptime_month_field_def is_nonzero_digit_def py_int_def py_strip_def is_space_def
  is_digit_def digit_val_def nat_of_digits_def remove_char_def replace_char_def
  py_datetime_def days_in_month_def is_leap_def DAYS_IN_MONTH_def DAYS_BEFORE_MONTH_def
  ymd2ord_def days_before_year_def days_before_month_def Let_def

lemmas strftime_eval = strftime_dmy_def ord2ymd_def month_and_day_def pad2_def pad4_def digit_char_def
  DAYS_IN_MONTH_def DAYS_BEFORE_MONTH_def Let_def

theorem priority_date_rule_witness:
  "parse_delivery_date ''10.01.2025'' = Inr 739261
   \<and> calculate_priority_date ''10.01.2025'' ''Main Road 5'' = (''03/01/2025'', None)
   \<and> calculate_priority_date ''10.01.2025'' ''12 Bet Hadfus St.'' = (''02/01/2025'', None)"
proof -
  have p: "parse_delivery_date ''10.01.2025'' = Inr 739261" by (simp add: date_eval)
  have d: "(7::int) \<le> 739261" by simp
  have a1: "\<not> special_address ''Main Road 5''" by (simp add: special_address_def)
  have a2: "special_address ''12 Bet Hadfus St.''" by (simp add: special_address_def)
  have w: "weekday (739261 - 6) = 5" by (simp add: weekday_def)
  have f1: "strftime_dmy 739254 = ''03/01/2025''" by (simp add: strftime_eval)
  have f2: "strftime_dmy 739253 = ''02/01/2025''" by (simp add: strftime_eval)
  obtain t where t: "calculate_priority_date ''10.01.2025'' ''Main Road 5'' = (strftime_dmy t, None)"
      "\<not> special_address ''Main Road 5'' \<and> weekday (739261 - 6) = 5 \<longrightarrow> t = 739261 - 6 - 1"
    using priority_date_rule[OF p d, of "''Main Road 5''"] by blast
  have w1: "calculate_priority_date ''10.01.2025'' ''Main Road 5'' = (''03/01/2025'', None)"
    using t a1 w f1 by simp
  obtain u where u: "calculate_priority_date ''10.01.2025'' ''12 Bet Hadfus St.'' = (strftime_dmy u, None)"
      "special_address ''12 Bet Hadfus St.'' \<longrightarrow> weekday u = 3 \<and> week_start u = week_start (739261 - 6)"
    using priority_date_rule[OF p d, of "''12 Bet Hadfus St.''"] by blast
  have "u = 739253" using u(2) a2 w by (simp add: week_start_def)
  then have w2: "calculate_priority_date ''10.01.2025'' ''12 Bet Hadfus St.'' = (''02/01/2025'', None)"
    using u(1) f2 by simp
  show ?thesis using p w1 w2 by simp
qed

theorem priority_date_overflow_counterexample:
  "parse_delivery_date ''01.01.0001'' = Inr 1
   \<and> calculate_priority_date ''01.01.0001'' ''Main Road 5'' = (''01/01/0001'', Some OverflowError)"
proof -
  have p: "parse_delivery_date ''01.01.0001'' = Inr 1" by (simp add: date_eval)
  have "priority_date_of 1 ''Main Road 5'' = Inl OverflowError"
    by (simp add: priority_date_of_def add_days_def)
  then show ?thesis using p
    by (simp add: calculate_priority_date_def date_fallback_def replace_char_def)
qed

theorem malformed_date_fallback_witness:
  "parse_delivery_date ''32.01.2025'' = Inl ValueError
   \<and> calculate_priority_date ''32.01.2025'' ''Main Road 5'' = (''32/01/2025'', Some ValueError)
   \<and> parse_delivery_date ''2025-01-10'' = Inl ValueError
   \<and> calculate_priority_date ''2025-01-10'' ''Main Road 5'' = (''2025-01-10'', Some ValueError)"
proof -
  have p: "parse_delivery_date ''32.01.2025'' = Inl ValueError" by (simp add: date_eval)
  have q: "parse_delivery_date ''2025-01-10'' = Inl ValueError" by (simp add: date_eval)
  have r: "replace_char (CHR ''.'') (CHR ''/'') ''32.01.2025'' = ''32/01/2025''"
          "replace_char (CHR ''.'') (CHR ''/'') ''2025-01-10'' = ''2025-01-10''"
    by (simp_all add: replace_char_def)
  show ?thesis
    using malformed_date_fallback[OF p, of "''Main Road 5''"]
      malformed_date_fallback[OF q, of "''Main Road 5''"] p q r
    by simp
qed

theorem malformed_date_modified_counterexample:
  "parse_delivery_date ''32.01.2025'' = Inl ValueError
   \<and> fst (calculate_priority_date ''32.01.2025'' ''Main Road 5'') = ''32/01/2025''
   \<and> fst (calculate_priority_date ''32.01.2025'' ''Main Road 5'') \<noteq> ''32.01.2025''"
proof -
  have p: "parse_delivery_date ''32.01.2025'' = Inl ValueError" by (simp add: date_eval)
  then show ?thesis
    by (simp add: calculate_priority_date_def date_fallback_def replace_char_def)
qed

section \<open>Properties of \<open>validate_orders\<close>\<close>















end
